theory Spec2Isabelle
  imports Complex_Main "HOL-Library.Word"
begin

unbundle bit_operations_syntax

section \<open>JavaScript values\<close>

text \<open>
  An \<open>int\<close> of the code is an \<open>int\<close> here: a JavaScript number that holds an integer,
  stored and compared (\<open>===\<close>) as it is. The bitwise operators cut their operands to
  32 bits (\<open>ToInt32\<close>), work on the 32 bits, and return a signed 32-bit integer; a shift
  uses the low five bits of its count.
\<close>

type_synonym int32 = "32 word"

definition ToInt32 :: "int \<Rightarrow> int32" where
  "ToInt32 x = word_of_int x"

definition js_and :: "int \<Rightarrow> int \<Rightarrow> int" where
  "js_and a b = sint (ToInt32 a AND ToInt32 b)"

definition js_or :: "int \<Rightarrow> int \<Rightarrow> int" where
  "js_or a b = sint (ToInt32 a OR ToInt32 b)"

definition js_xor :: "int \<Rightarrow> int \<Rightarrow> int" where
  "js_xor a b = sint (ToInt32 a XOR ToInt32 b)"

definition js_not :: "int \<Rightarrow> int" where
  "js_not a = sint (NOT (ToInt32 a))"

text \<open>\<open>a << b\<close> and \<open>a >> b\<close>, the second keeping the sign.\<close>

definition js_shl :: "int \<Rightarrow> int \<Rightarrow> int" where
  "js_shl a b = sint (push_bit (nat (b mod 32)) (ToInt32 a))"

definition js_sar :: "int \<Rightarrow> int \<Rightarrow> int" where
  "js_sar a b = sint (signed_drop_bit (nat (b mod 32)) (ToInt32 a))"

text \<open>
  The errors: a \<open>DetailedError\<close> with its message is what the modelled code throws
  itself, \<open>RangeError\<close> is what \<open>Float32Array\<close> throws for a negative length, and
  \<open>TypeError\<close> what a method call on \<open>undefined\<close> throws.
\<close>

datatype error = DetailedError string | RangeError string | TypeError string

text \<open>
  A number that is not a mask or an index: a finite value, NaN or an infinity. The
  paths below store, copy and compare such numbers, convert them to single precision,
  and scale a zero matrix by NaN; the arithmetic on finite values is written without the
  rounding of double precision, which none of these paths meets.
\<close>

datatype number = Num real | NaN | PosInf | NegInf

fun number_sign :: "number \<Rightarrow> real" where
  "number_sign (Num x) = sgn x"
| "number_sign NaN = 0"
| "number_sign PosInf = 1"
| "number_sign NegInf = - 1"

fun number_uminus :: "number \<Rightarrow> number" where
  "number_uminus (Num x) = Num (- x)"
| "number_uminus NaN = NaN"
| "number_uminus PosInf = NegInf"
| "number_uminus NegInf = PosInf"

definition number_times :: "number \<Rightarrow> number \<Rightarrow> number" where
  "number_times a b =
     (if a = NaN \<or> b = NaN then NaN
      else case (a, b) of
        (Num x, Num y) \<Rightarrow> Num (x * y)
      | _ \<Rightarrow> (let s = number_sign a * number_sign b
              in if s = 0 then NaN else if 0 < s then PosInf else NegInf))"

definition number_plus :: "number \<Rightarrow> number \<Rightarrow> number" where
  "number_plus a b =
     (if a = NaN \<or> b = NaN then NaN
      else case (a, b) of
        (Num x, Num y) \<Rightarrow> Num (x + y)
      | (Num x, i) \<Rightarrow> i
      | (i, Num y) \<Rightarrow> i
      | (i, j) \<Rightarrow> (if i = j then i else NaN))"

definition number_minus :: "number \<Rightarrow> number \<Rightarrow> number" where
  "number_minus a b = number_plus a (number_uminus b)"

text \<open>
  The conversion of a number to single precision, which a \<open>Float32Array\<close> applies to
  every value it is given: the nearest value with a 24-bit significand, a tie going to
  the even one; below \<open>2^-126\<close> the spacing stays \<open>2^-149\<close>, and a result of magnitude
  \<open>2^128\<close> is an infinity.
\<close>

definition round_half_even :: "real \<Rightarrow> int" where
  "round_half_even r =
     (let f = \<lfloor>r\<rfloor>; d = r - of_int f
      in if d < 1 / 2 then f else if 1 / 2 < d then f + 1 else if even f then f else f + 1)"

definition fround_real :: "real \<Rightarrow> number" where
  "fround_real x =
     (if x = 0 then Num 0
      else
        let e = \<lfloor>log 2 \<bar>x\<bar>\<rfloor>;
            q = max (e - 23) (- 149);
            y = of_int (round_half_even (x * 2 powi (- q))) * 2 powi q
        in if 2 ^ 128 \<le> \<bar>y\<bar> then (if 0 < x then PosInf else NegInf) else Num y)"

fun fround :: "number \<Rightarrow> number" where
  "fround (Num x) = fround_real x"
| "fround v = v"

text \<open>
  A typed array is a list of numbers. A write out of range is ignored, which is what
  \<open>xs[i := v]\<close> does; a read out of range is \<open>undefined\<close>, here \<open>None\<close>.
  \<open>new Float32Array(len)\<close> is filled with zeros, and \<open>new Float32Array(values)\<close> is a
  copy of the values in single precision.
\<close>

type_synonym Float32Array = "number list"

definition Float32Array_new :: "int \<Rightarrow> error + Float32Array" where
  "Float32Array_new len =
     (if len < 0 then Inl (RangeError ''Invalid typed array length'')
      else Inr (replicate (nat len) (Num 0)))"

definition Float32Array_from :: "number list \<Rightarrow> Float32Array" where
  "Float32Array_from values = map fround values"

definition Float32Array_get :: "number list \<Rightarrow> nat \<Rightarrow> number option" where
  "Float32Array_get buf i = (if i < length buf then Some (buf ! i) else None)"

text \<open>An array read \<open>xs[i]\<close>: \<open>None\<close> is the \<open>undefined\<close> of an index out of range.\<close>

definition array_get :: "'a list \<Rightarrow> nat \<Rightarrow> 'a option" where
  "array_get xs i = (if i < length xs then Some (xs ! i) else None)"

section \<open>Controls\<close>

text \<open>The masks are stored as the constructor receives them.\<close>

record Controls =
  inclusionMask :: int
  desiredValueMask :: int

text \<open>The constructor: it throws when a desired bit is not an included bit.\<close>

definition Controls_new :: "int \<Rightarrow> int \<Rightarrow> error + Controls" where
  "Controls_new inclusion desired =
     (if js_and desired (js_not inclusion) \<noteq> 0
      then Inl (DetailedError ''Desired un-included bits'')
      else Inr \<lparr>inclusionMask = inclusion, desiredValueMask = desired\<rparr>)"

definition Controls_bit :: "int \<Rightarrow> bool \<Rightarrow> error + Controls" where
  "Controls_bit bitIndex desiredValue =
     (if bitIndex < 0 then Inl (DetailedError ''Out of range'')
      else Controls_new (js_shl 1 bitIndex) (if desiredValue then js_shl 1 bitIndex else 0))"

definition isEqualTo :: "Controls \<Rightarrow> Controls \<Rightarrow> bool" where
  "isEqualTo this other =
     (inclusionMask this = inclusionMask other \<and> desiredValueMask this = desiredValueMask other)"

definition allowsState :: "Controls \<Rightarrow> int \<Rightarrow> bool" where
  "allowsState this stateIndex = (js_and (inclusionMask this) stateIndex = desiredValueMask this)"

text \<open>\<open>desiredValueFor\<close>: \<open>None\<close> is the \<open>null\<close> of a bit that is not included.\<close>

definition desiredValueFor :: "Controls \<Rightarrow> int \<Rightarrow> bool option" where
  "desiredValueFor this bitIndex =
     (if js_and (inclusionMask this) (js_shl 1 bitIndex) = 0 then None
      else Some (js_and (desiredValueMask this) (js_shl 1 bitIndex) \<noteq> 0))"

definition Controls_and :: "Controls \<Rightarrow> Controls \<Rightarrow> error + Controls" where
  "Controls_and this other =
     (if js_and (desiredValueMask other) (inclusionMask this)
          \<noteq> js_and (desiredValueMask this) (inclusionMask other)
      then Inl (DetailedError ''Contradictory controls.'')
      else Controls_new (js_or (inclusionMask this) (inclusionMask other))
             (js_or (desiredValueMask this) (desiredValueMask other)))"

text \<open>\<open>Controls.NONE = new Controls(0, 0)\<close>; the constructor accepts the pair.\<close>

definition Controls_NONE :: Controls where
  "Controls_NONE = \<lparr>inclusionMask = 0, desiredValueMask = 0\<rparr>"

section \<open>Matrix\<close>

text \<open>
  Modelled from the spec: the Matrix class (src/math/Matrix.js) is not among the sources.
  The spec's data model has dense complex matrices whose entries are stored as interleaved
  real and imaginary scalars, which is how the code under src/ reads and writes them: the
  entry at \<open>(row, col)\<close> of a matrix of width \<open>n\<close> sits at \<open>k = (row*n + col)*2\<close> and
  \<open>k + 1\<close>. \<open>new Matrix(w, h, buf)\<close> is the record itself and \<open>rawBuffer()\<close> its
  buffer, a typed array of single or of double precision.
\<close>

record Matrix =
  width :: nat
  height :: nat
  rawBuffer :: "number list"

text \<open>
  Modelled from the spec: \<open>Matrix.zero(w, h)\<close>, missing with the Matrix class, is the
  \<open>w\<close> by \<open>h\<close> matrix of zeros over a fresh \<open>Float32Array\<close> of \<open>w*h*2\<close> scalars; a
  negative dimension has no such buffer.
\<close>

definition Matrix_zero :: "int \<Rightarrow> int \<Rightarrow> error + Matrix" where
  "Matrix_zero w h =
     (if w < 0 \<or> h < 0 then Inl (RangeError ''Invalid typed array length'')
      else map_sum id (\<lambda>buf. \<lparr>width = nat w, height = nat h, rawBuffer = buf\<rparr>)
             (Float32Array_new (w * h * 2)))"

text \<open>
  Modelled from the spec: the scaling behind \<open>m.times(v)\<close>, missing with the Matrix
  class. It multiplies every complex entry \<open>vr + vi i\<close> of the buffer by the scalar
  \<open>sr + si i\<close>; a plain number \<open>v\<close> is the scalar \<open>v + 0 i\<close>. The spec calls
  \<open>Matrix.zero(w, h).times(NaN)\<close> a NaN-filled matrix.
\<close>

fun scale_cells :: "number \<Rightarrow> number \<Rightarrow> number list \<Rightarrow> number list" where
  "scale_cells sr si (vr # vi # rest) =
     number_minus (number_times vr sr) (number_times vi si)
     # number_plus (number_times vr si) (number_times vi sr)
     # scale_cells sr si rest"
| "scale_cells sr si rest = []"

text \<open>
  Modelled from the spec: \<open>times\<close> itself, of the missing Matrix class, with a number as
  its argument; the shape is kept.
\<close>

definition Matrix_times :: "Matrix \<Rightarrow> number \<Rightarrow> Matrix" where
  "Matrix_times m v = m\<lparr>rawBuffer := scale_cells v (Num 0) (rawBuffer m)\<rparr>"

section \<open>CircuitStats\<close>

text \<open>
  Modelled from the spec: the CircuitDefinition class (src/circuit/CircuitDefinition.js) is
  not among the sources. The spec gives it \<open>numWires: uint\<close> and an ordered sequence of
  columns, each a sequence of optional gate references, one slot per wire. The gates are
  a type parameter.
\<close>

record 'g CircuitDefinition =
  numWires :: nat
  columns :: "'g option list list"

text \<open>
  A column index is an integer or \<open>Infinity\<close>, which the callers pass for "after the
  last column".
\<close>

datatype colIndex = Col int | Infinity

definition col_negative :: "colIndex \<Rightarrow> bool" where
  "col_negative c = (case c of Col k \<Rightarrow> k < 0 | Infinity \<Rightarrow> False)"

definition Math_min :: "colIndex \<Rightarrow> int \<Rightarrow> int" where
  "Math_min c n = (case c of Col k \<Rightarrow> min k n | Infinity \<Rightarrow> n)"

text \<open>The snapshot. The custom-stat payloads are a type parameter.\<close>

record ('g, 'v) CircuitStats =
  circuitDefinition :: "'g CircuitDefinition"
  time :: number
  qubitDensities :: "Matrix list list"
  finalState :: Matrix
  postSelectionSurvivalRate :: number
  customStatsProcessed :: "string \<rightharpoonup> 'v"

definition qubitDensityMatrix ::
  "('g, 'v) CircuitStats \<Rightarrow> int \<Rightarrow> colIndex \<Rightarrow> error + Matrix" where
  "qubitDensityMatrix this wireIndex colIndex =
     (if wireIndex < 0 then Inl (DetailedError ''Bad wireIndex'')
      else if col_negative colIndex \<or> int (numWires (circuitDefinition this)) \<le> wireIndex
      then map_sum id (\<lambda>buf. \<lparr>width = 2, height = 2, rawBuffer = buf[0 := Num 1]\<rparr>)
             (Float32Array_new (2 * 2 * 2))
      else
        let col = Math_min colIndex (int (length (qubitDensities this)) - 1) in
        if col < 0 \<or> int (length (qubitDensities this ! nat col)) \<le> wireIndex
        then map_sum id (\<lambda>z. Matrix_times z NaN) (Matrix_zero 2 2)
        else Inr (qubitDensities this ! nat col ! nat wireIndex))"

definition controlledWireProbabilityJustAfter ::
  "('g, 'v) CircuitStats \<Rightarrow> int \<Rightarrow> colIndex \<Rightarrow> error + number option" where
  "controlledWireProbabilityJustAfter this wireIndex colIndex =
     map_sum id (\<lambda>m. Float32Array_get (rawBuffer m) 6)
       (qubitDensityMatrix this wireIndex colIndex)"

definition withTime :: "('g, 'v) CircuitStats \<Rightarrow> number \<Rightarrow> ('g, 'v) CircuitStats" where
  "withTime this t =
     \<lparr>circuitDefinition = circuitDefinition this,
      time = t,
      qubitDensities = qubitDensities this,
      finalState = finalState this,
      postSelectionSurvivalRate = postSelectionSurvivalRate this,
      customStatsProcessed = customStatsProcessed this\<rparr>"

text \<open>
  Modelled from the spec: \<open>notifyAboutRecoveryFromUnexpectedError\<close> (src/fallback.js) and
  \<open>Serializer.toJson\<close> (src/circuit/Serializer.js) are not among the sources. The spec
  has the caller notified on a side channel with the causing error and a serialized form
  of the circuit: the notifications sent are returned beside the result, and the
  serializer is a parameter.
\<close>

record 'j notification =
  message :: string
  circuitJson :: 'j
  cause :: error

text \<open>
  \<open>fromCircuitAtTime\<close>. The computation it guards, \<open>_fromCircuitAtTime_noFallback\<close>,
  runs on the accelerator through modules that are not among the sources; it is the
  parameter \<open>noFallback\<close>, which returns a snapshot or throws.
\<close>

definition fromCircuitAtTime ::
  "('g CircuitDefinition \<Rightarrow> number \<Rightarrow> error + ('g, 'v) CircuitStats) \<Rightarrow>
   ('g CircuitDefinition \<Rightarrow> 'j) \<Rightarrow>
   'g CircuitDefinition \<Rightarrow> number \<Rightarrow>
   'j notification list \<times> (error + ('g, 'v) CircuitStats)" where
  "fromCircuitAtTime noFallback toJson circuitDef t =
     (case noFallback circuitDef t of
        Inr stats \<Rightarrow> ([], Inr stats)
      | Inl ex \<Rightarrow>
          ([\<lparr>message = ''Defaulted to NaN results. Computing circuit values failed.'',
             circuitJson = toJson circuitDef,
             cause = ex\<rparr>],
           map_sum id
             (\<lambda>z. \<lparr>circuitDefinition = circuitDef,
                   time = t,
                   qubitDensities = [],
                   finalState = Matrix_times z NaN,
                   postSelectionSurvivalRate = NaN,
                   customStatsProcessed = Map.empty\<rparr>)
             (Matrix_zero 1 (js_shl 1 (int (numWires circuitDef))))))"

text \<open>The kernel of the error-injection gate.\<close>

definition ErrorInjectionGate_customShader :: "'t \<Rightarrow> 't \<Rightarrow> nat \<Rightarrow> error + 't" where
  "ErrorInjectionGate_customShader inputTex controlTex qubit =
     Inl (DetailedError ''Applied an Error Injection Gate'')"

text \<open>
  \<open>decohereMeasuredBitsInDensityMatrix\<close>: \<open>decohere_cell\<close> is the body of its two
  loops, at one \<open>row\<close> and \<open>col\<close>. The buffer it writes to is
  \<open>new Float32Array(densityMatrix.rawBuffer())\<close>, a copy in single precision.
\<close>

definition decohere_cell :: "nat \<Rightarrow> int \<Rightarrow> nat \<Rightarrow> nat \<Rightarrow> Float32Array \<Rightarrow> Float32Array" where
  "decohere_cell n isMeasuredMask row col buf =
     (if js_and (js_xor (int row) (int col)) isMeasuredMask \<noteq> 0
      then (let k = (row * n + col) * 2 in buf[k := Num 0, k + 1 := Num 0])
      else buf)"

definition decohereMeasuredBitsInDensityMatrix :: "Matrix \<Rightarrow> int \<Rightarrow> Matrix" where
  "decohereMeasuredBitsInDensityMatrix densityMatrix isMeasuredMask =
     (if isMeasuredMask = 0 then densityMatrix
      else
        let buf = Float32Array_from (rawBuffer densityMatrix);
            n = width densityMatrix
        in \<lparr>width = n, height = n,
            rawBuffer =
              fold (\<lambda>row. fold (decohere_cell n isMeasuredMask row) [0..<n]) [0..<n] buf\<rparr>)"

text \<open>
  \<open>scatterAndDecohereDensities\<close>. \<open>scatter_rows\<close> is the function it maps over the
  rows, with the counter \<open>used\<close> that the function advances; an entry of the array it
  builds is a matrix or, where \<open>rawMatrices[used]\<close> is read past the end and the mask
  is 0, \<open>undefined\<close> (with another mask the call on \<open>undefined\<close> throws).

  Modelled from the spec: \<open>Seq.range\<close> (src/base/Seq.js) is not among the sources;
  \<open>Seq.range(n).map(f).toArray()\<close> is the array of \<open>f\<close> at \<open>0, ..., n - 1\<close>, in this
  order, and empty when \<open>n\<close> is not positive.
\<close>

fun scatter_rows ::
  "Matrix \<Rightarrow> Matrix list \<Rightarrow> int \<Rightarrow> int \<Rightarrow> int \<Rightarrow> nat \<Rightarrow> nat list \<Rightarrow> error + Matrix option list" where
  "scatter_rows nanMat rawMatrices qubitSpan isMeasuredMask hasDisplayMask used [] = Inr []"
| "scatter_rows nanMat rawMatrices qubitSpan isMeasuredMask hasDisplayMask used (row # rows) =
     (if js_and hasDisplayMask (js_shl 1 (int row)) = 0
      then map_sum id (Cons (Some nanMat))
             (scatter_rows nanMat rawMatrices qubitSpan isMeasuredMask hasDisplayMask used rows)
      else
        let msk = js_and (js_sar isMeasuredMask (int row)) (js_shl 1 qubitSpan - 1) in
        case array_get rawMatrices used of
          None \<Rightarrow>
            if msk = 0
            then map_sum id (Cons None)
                   (scatter_rows nanMat rawMatrices qubitSpan isMeasuredMask hasDisplayMask
                      (used + 1) rows)
            else Inl (TypeError ''Cannot read properties of undefined'')
        | Some densityMatrix \<Rightarrow>
            map_sum id (Cons (Some (decohereMeasuredBitsInDensityMatrix densityMatrix msk)))
              (scatter_rows nanMat rawMatrices qubitSpan isMeasuredMask hasDisplayMask
                 (used + 1) rows))"

definition scatterAndDecohereDensities ::
  "Matrix list \<Rightarrow> int \<Rightarrow> int \<Rightarrow> int \<Rightarrow> int \<Rightarrow> error + Matrix option list" where
  "scatterAndDecohereDensities rawMatrices wireCount qubitSpan isMeasuredMask hasDisplayMask =
     (case map_sum id (\<lambda>z. Matrix_times z NaN)
             (Matrix_zero (js_shl 1 qubitSpan) (js_shl 1 qubitSpan)) of
        Inl e \<Rightarrow> Inl e
      | Inr nanMat \<Rightarrow>
          scatter_rows nanMat rawMatrices qubitSpan isMeasuredMask hasDisplayMask 0
            [0..<nat (wireCount - qubitSpan + 1)])"

section \<open>Notions that the properties are stated with\<close>

text \<open>
  The invariant of the data model, \<open>desiredValueMask & ~inclusionMask == 0\<close>: the
  Controls values are the ones that the constructor lets through.
\<close>

definition Controls_inv :: "Controls \<Rightarrow> bool" where
  "Controls_inv c = (js_and (desiredValueMask c) (js_not (inclusionMask c)) = 0)"

text \<open>
  A signed 32-bit integer: what the bitwise operators return, and so what every mask is
  that \<open>Controls.bit\<close> and \<open>and\<close> store.
\<close>

definition is_int32 :: "int \<Rightarrow> bool" where
  "is_int32 x = (- (2 ^ 31) \<le> x \<and> x < 2 ^ 31)"

text \<open>Where the entry at \<open>(row, col)\<close> starts in the buffer of a matrix of width \<open>n\<close>.\<close>

definition cell_index :: "nat \<Rightarrow> nat \<Rightarrow> nat \<Rightarrow> nat" where
  "cell_index n row col = (row * n + col) * 2"

text \<open>The entry at \<open>(row, col)\<close>: its real and its imaginary part, as the buffer holds them.\<close>

definition entry :: "Matrix \<Rightarrow> nat \<Rightarrow> nat \<Rightarrow> number option \<times> number option" where
  "entry m row col =
     (Float32Array_get (rawBuffer m) ((row * width m + col) * 2),
      Float32Array_get (rawBuffer m) ((row * width m + col) * 2 + 1))"

text \<open>An entry converted to single precision.\<close>

definition fround_entry :: "number option \<times> number option \<Rightarrow> number option \<times> number option" where
  "fround_entry e = (map_option fround (fst e), map_option fround (snd e))"

text \<open>Two basis indices that differ in a measured bit.\<close>

definition measured_apart :: "int \<Rightarrow> nat \<Rightarrow> nat \<Rightarrow> bool" where
  "measured_apart isMeasuredMask row col
     = (js_and (js_xor (int row) (int col)) isMeasuredMask \<noteq> 0)"

section \<open>Facts about the bitwise operators and masks\<close>

lemma ToInt32_sint [simp]: "ToInt32 (sint w) = w"
  by (simp add: ToInt32_def)

lemma sint_eq_iff: "sint (a :: int32) = sint b \<longleftrightarrow> a = b"
  by (metis ToInt32_sint)

lemma sint_eq_0_iff32: "sint (a :: int32) = 0 \<longleftrightarrow> a = 0"
  using sint_eq_iff [of a 0] by simp

lemma is_int32_iff: "is_int32 x \<longleftrightarrow> sint (ToInt32 x) = x"
proof
  assume "is_int32 x"
  then show "sint (ToInt32 x) = x"
    by (simp add: is_int32_def ToInt32_def sint_sbintrunc' signed_take_bit_int_eq_self)
next
  assume h: "sint (ToInt32 x) = x"
  have "- (2 ^ 31) \<le> sint (ToInt32 x)" "sint (ToInt32 x) < 2 ^ 31"
    using sint_ge [of "ToInt32 x"] sint_lt [of "ToInt32 x"] by simp_all
  with h show "is_int32 x" by (simp add: is_int32_def)
qed

lemma is_int32_sint [simp]: "is_int32 (sint (w :: int32))"
  by (simp add: is_int32_iff)

lemma ToInt32_ops [simp]:
  "ToInt32 (js_and a b) = ToInt32 a AND ToInt32 b"
  "ToInt32 (js_or a b) = ToInt32 a OR ToInt32 b"
  "ToInt32 (js_xor a b) = ToInt32 a XOR ToInt32 b"
  "ToInt32 (js_not a) = NOT (ToInt32 a)"
  by (simp_all add: js_and_def js_or_def js_xor_def js_not_def)

lemma js_and_eq_0: "js_and a b = 0 \<longleftrightarrow> ToInt32 a AND ToInt32 b = 0"
  by (simp add: js_and_def sint_eq_0_iff32)

lemma js_and_eq_iff: "js_and a b = js_and c d \<longleftrightarrow> ToInt32 a AND ToInt32 b = ToInt32 c AND ToInt32 d"
  by (simp add: js_and_def sint_eq_iff)

lemma Controls_inv_words:
  "Controls_inv c \<longleftrightarrow> ToInt32 (desiredValueMask c) AND NOT (ToInt32 (inclusionMask c)) = 0"
  by (simp add: Controls_inv_def js_and_eq_0)

lemma bit_int32_bound: "bit (w :: int32) n \<Longrightarrow> n < 32"
  using bit_imp_le_length [of w n] by simp

lemma subset_bits:
  "(d :: int32) AND NOT i = 0 \<longleftrightarrow> (\<forall>n. bit d n \<longrightarrow> bit i n)"
  by (auto simp: bit_eq_iff bit_and_iff bit_not_iff dest: bit_int32_bound)

lemma merged_masks_subset:
  "(da :: int32) AND NOT ia = 0 \<Longrightarrow> db AND NOT ib = 0 \<Longrightarrow>
   (da OR db) AND NOT (ia OR ib) = 0"
  unfolding subset_bits
  by (auto simp: bit_or_iff)

lemma merged_allows:
  assumes "(da :: int32) AND NOT ia = 0" and "db AND NOT ib = 0"
    and "db AND ia = da AND ib"
  shows "((ia OR ib) AND s = da OR db) = (ia AND s = da \<and> ib AND s = db)"
  using assms unfolding subset_bits
  apply (simp add: bit_eq_iff bit_and_iff bit_not_iff bit_or_iff)
  apply blast
  done

lemma disagree_on_shared_bit:
  assumes "(da :: int32) AND NOT ia = 0" and "db AND NOT ib = 0"
  shows "(db AND ia \<noteq> da AND ib)
       = (\<exists>n. bit ia n \<and> bit ib n \<and> bit da n \<noteq> bit db n)"
  using assms unfolding subset_bits
  apply (simp add: bit_eq_iff bit_and_iff bit_not_iff bit_or_iff)
  apply (metis bit_int32_bound)
  done

lemma Controls_new_Inr_iff:
  "Controls_new i d = Inr c \<longleftrightarrow>
     c = \<lparr>inclusionMask = i, desiredValueMask = d\<rparr> \<and> js_and d (js_not i) = 0"
  by (auto simp: Controls_new_def)

lemma Controls_and_agreeing:
  assumes "Controls_inv a" and "Controls_inv b"
    and "js_and (desiredValueMask b) (inclusionMask a)
         = js_and (desiredValueMask a) (inclusionMask b)"
  shows "Controls_and a b =
           Inr \<lparr>inclusionMask = js_or (inclusionMask a) (inclusionMask b),
                desiredValueMask = js_or (desiredValueMask a) (desiredValueMask b)\<rparr>"
proof -
  have "js_and (js_or (desiredValueMask a) (desiredValueMask b))
          (js_not (js_or (inclusionMask a) (inclusionMask b))) = 0"
    using assms(1,2) merged_masks_subset
    by (simp add: js_and_eq_0 Controls_inv_words)
  with assms(3) show ?thesis
    by (simp add: Controls_and_def Controls_new_def)
qed

lemma allowsState_int32:
  assumes "is_int32 (desiredValueMask c)"
  shows "allowsState c s
         \<longleftrightarrow> ToInt32 (inclusionMask c) AND ToInt32 s = ToInt32 (desiredValueMask c)"
proof -
  have "desiredValueMask c = sint (ToInt32 (desiredValueMask c))"
    using assms by (simp add: is_int32_iff)
  then have "allowsState c s
      \<longleftrightarrow> sint (ToInt32 (inclusionMask c) AND ToInt32 s) = sint (ToInt32 (desiredValueMask c))"
    by (simp add: allowsState_def js_and_def)
  then show ?thesis by (simp add: sint_eq_iff)
qed

lemma allowsState_needs_int32:
  "\<not> is_int32 (desiredValueMask c) \<Longrightarrow> \<not> allowsState c s"
  by (metis allowsState_def js_and_def is_int32_sint)

lemma js_shl_1_bit:
  assumes "0 \<le> k" and "k < 32"
  shows "js_and x (js_shl 1 k) \<noteq> 0 \<longleftrightarrow> bit (ToInt32 x) (nat k)"
proof -
  have "k mod 32 = k" using assms by simp
  then have "ToInt32 (js_shl 1 k) = push_bit (nat k) 1"
    by (simp add: js_shl_def ToInt32_def)
  then show ?thesis
    by (simp add: js_and_eq_0 bit_iff_and_push_bit_not_eq_0)
qed

lemma desiredValueFor_bit:
  assumes "0 \<le> k" and "k < 32"
  shows "desiredValueFor c k =
           (if bit (ToInt32 (inclusionMask c)) (nat k)
            then Some (bit (ToInt32 (desiredValueMask c)) (nat k)) else None)"
  using js_shl_1_bit [OF assms, of "inclusionMask c"] js_shl_1_bit [OF assms, of "desiredValueMask c"]
  by (auto simp: desiredValueFor_def)

lemma disagree_desiredValueFor:
  assumes "Controls_inv a" and "Controls_inv b"
  shows "(js_and (desiredValueMask b) (inclusionMask a)
            \<noteq> js_and (desiredValueMask a) (inclusionMask b))
       = (\<exists>k x y. 0 \<le> k \<and> k < 32 \<and> desiredValueFor a k = Some x
                  \<and> desiredValueFor b k = Some y \<and> x \<noteq> y)" (is "?L = ?R")
proof -
  let ?ia = "ToInt32 (inclusionMask a)" and ?da = "ToInt32 (desiredValueMask a)"
  let ?ib = "ToInt32 (inclusionMask b)" and ?db = "ToInt32 (desiredValueMask b)"
  have sub: "?da AND NOT ?ia = 0" "?db AND NOT ?ib = 0"
    using assms by (simp_all add: Controls_inv_words)
  have L: "?L \<longleftrightarrow> (\<exists>n. bit ?ia n \<and> bit ?ib n \<and> bit ?da n \<noteq> bit ?db n)"
    using disagree_on_shared_bit [OF sub] by (simp add: js_and_eq_iff)
  show ?thesis
  proof
    assume ?L
    with L obtain n where n: "bit ?ia n" "bit ?ib n" "bit ?da n \<noteq> bit ?db n"
      by blast
    then have "n < 32" by (auto dest: bit_int32_bound)
    then have r: "0 \<le> int n" "int n < 32" by simp_all
    from desiredValueFor_bit [OF r, of a] desiredValueFor_bit [OF r, of b] n r
    show ?R by (intro exI [of _ "int n"]) simp
  next
    assume ?R
    then obtain k x y where k: "0 \<le> k" "k < 32" "desiredValueFor a k = Some x"
        "desiredValueFor b k = Some y" "x \<noteq> y"
      by blast
    from k(3-5) desiredValueFor_bit [OF k(1,2), of a] desiredValueFor_bit [OF k(1,2), of b]
    have "bit ?ia (nat k) \<and> bit ?ib (nat k) \<and> bit ?da (nat k) \<noteq> bit ?db (nat k)"
      by (auto split: if_splits)
    with L show ?L by blast
  qed
qed

lemma js_or_0 [simp]: "js_or x 0 = sint (ToInt32 x)" "js_or 0 x = sint (ToInt32 x)"
  by (simp_all add: js_or_def ToInt32_def)

lemma js_and_0 [simp]: "js_and x 0 = 0" "js_and 0 x = 0"
  by (simp_all add: js_and_def ToInt32_def)

section \<open>Facts about single precision\<close>

lemma floor_log2_eq:
  assumes "2 powi k \<le> x" and "x < 2 powi (k + 1)"
  shows "\<lfloor>log 2 x\<rfloor> = k"
proof -
  have "(0::real) < 2 powi k" by simp
  with assms(1) have pos: "0 < x" by linarith
  have p: "(2::real) powr (real_of_int k) = 2 powi k"
    "(2::real) powr (real_of_int (k + 1)) = 2 powi (k + 1)"
    by (simp_all only: powr_real_of_int' [of 2, simplified])
  have "2 powr (real_of_int k) \<le> x \<and> x < 2 powr (real_of_int (k + 1))"
    unfolding p using assms by simp
  then show ?thesis
    using floor_log_eq_powr_iff [of x 2 k] pos by simp
qed

lemma fround_1: "fround (Num 1) = Num 1"
  by (simp add: fround_real_def round_half_even_def power_int_def power_one_over)

lemma fround_big: "fround (Num 16777217) = Num 16777216"
proof -
  have "\<lfloor>log 2 \<bar>16777217 :: real\<bar>\<rfloor> = 24"
    by (rule floor_log2_eq) (simp_all add: power_int_def)
  then show ?thesis
    by (simp add: fround_real_def round_half_even_def power_int_def Let_def power_one_over)
qed

lemma fround_third: "fround (Num (1 / 3)) = Num (11184811 / 33554432)"
proof -
  have "\<lfloor>log 2 \<bar>1 / 3 :: real\<bar>\<rfloor> = - 2"
    by (rule floor_log2_eq) (simp_all add: power_int_def power_one_over)
  then show ?thesis
    by (simp add: fround_real_def round_half_even_def power_int_def Let_def power_one_over)
qed

lemma fround_0: "fround (Num 0) = Num 0"
  by (simp add: fround_real_def)

lemma fround_half_more: "fround (Num (536870913 / 1073741824)) = Num (1 / 2)"
proof -
  have "\<lfloor>log 2 \<bar>536870913 / 1073741824 :: real\<bar>\<rfloor> = - 1"
    by (rule floor_log2_eq) (simp_all add: power_int_def power_one_over)
  then show ?thesis
    by (simp add: fround_real_def round_half_even_def power_int_def Let_def power_one_over)
qed

section \<open>Facts about matrices\<close>

lemma scale_cells_zero_NaN:
  "scale_cells NaN (Num 0) (replicate (2 * k) (Num 0)) = replicate (2 * k) NaN"
  by (induction k) (simp_all add: number_times_def number_minus_def number_plus_def)

lemma Matrix_zero_times_NaN:
  "map_sum id (\<lambda>z. Matrix_times z NaN) (Matrix_zero (int w) (int h))
     = Inr \<lparr>width = w, height = h, rawBuffer = replicate (2 * (w * h)) NaN\<rparr>"
proof -
  have "nat (int w * int h * 2) = 2 * (w * h)"
    by (simp add: nat_mult_distrib)
  moreover have "\<not> int w * int h * 2 < 0"
    by (simp add: not_less)
  ultimately show ?thesis
    by (simp add: Matrix_zero_def Float32Array_new_def Matrix_times_def scale_cells_zero_NaN)
qed

lemma js_shl_1_pow2:
  assumes "n \<le> 30"
  shows "js_shl 1 (int n) = 2 ^ n"
proof -
  have "int n mod 32 = int n" using assms by simp
  then have "push_bit (nat (int n mod 32)) (ToInt32 1) = (word_of_int (2 ^ n) :: int32)"
    by (simp add: ToInt32_def word_of_int_2p)
  moreover have "sint (word_of_int (2 ^ n) :: int32) = signed_take_bit 31 (2 ^ n :: int)"
    by (simp only: sint_sbintrunc') simp
  ultimately have "js_shl 1 (int n) = signed_take_bit 31 (2 ^ n :: int)"
    by (simp only: js_shl_def)
  moreover have "(2 :: int) ^ n < 2 ^ 31"
    using assms by (intro power_strict_increasing) simp_all
  moreover have "- (2 ^ 31) \<le> (2 :: int) ^ n"
    by (rule order_trans [of _ 0]) simp_all
  ultimately show ?thesis
    by (simp add: signed_take_bit_int_eq_self)
qed

lemma NaN_matrix_2x2:
  "map_sum id (\<lambda>z. Matrix_times z NaN) (Matrix_zero 2 2)
     = Inr \<lparr>width = 2, height = 2,
            rawBuffer = [NaN, NaN, NaN, NaN, NaN, NaN, NaN, NaN]\<rparr>"
  using Matrix_zero_times_NaN [of 2 2] by (simp add: numeral_eq_Suc)

lemma zero_qubit_density:
  "map_sum id (\<lambda>buf. \<lparr>width = 2, height = 2, rawBuffer = buf[0 := Num 1]\<rparr>)
     (Float32Array_new (2 * 2 * 2))
     = Inr \<lparr>width = 2, height = 2,
            rawBuffer = [Num 1, Num 0, Num 0, Num 0, Num 0, Num 0, Num 0, Num 0]\<rparr>"
  by (simp add: Float32Array_new_def numeral_eq_Suc)

lemma ErrorInjectionGate_customShader_throws:
  "ErrorInjectionGate_customShader inputTex controlTex qubit
     = Inl (DetailedError ''Applied an Error Injection Gate'')"
  by (simp add: ErrorInjectionGate_customShader_def)

section \<open>Facts about the decoherence loops\<close>

lemma length_decohere_cell [simp]: "length (decohere_cell n msk row col buf) = length buf"
  by (simp add: decohere_cell_def Let_def)

lemma length_fold_decohere_cell [simp]:
  "length (fold (decohere_cell n msk row) cs buf) = length buf"
  by (induction cs arbitrary: buf) simp_all

lemma nth_decohere_cell:
  "j < length buf \<Longrightarrow>
   decohere_cell n msk row col buf ! j =
     (if measured_apart msk row col \<and> (j = cell_index n row col \<or> j = cell_index n row col + 1)
      then Num 0 else buf ! j)"
  by (auto simp: decohere_cell_def measured_apart_def cell_index_def Let_def nth_list_update)

lemma nth_fold_decohere_cell:
  "j < length buf \<Longrightarrow>
   fold (decohere_cell n msk row) cs buf ! j =
     (if \<exists>c \<in> set cs. measured_apart msk row c
            \<and> (j = cell_index n row c \<or> j = cell_index n row c + 1)
      then Num 0 else buf ! j)"
proof (induction cs arbitrary: buf)
  case Nil
  then show ?case by simp
next
  case (Cons c cs)
  have "j < length (decohere_cell n msk row c buf)" using Cons.prems by simp
  from Cons.IH [OF this] show ?case
    using Cons.prems by (auto simp: nth_decohere_cell)
qed

lemma length_fold_rows [simp]:
  "length (fold (\<lambda>row. fold (decohere_cell n msk row) cs) rs buf) = length buf"
  by (induction rs arbitrary: buf) simp_all

lemma nth_fold_rows:
  "j < length buf \<Longrightarrow>
   fold (\<lambda>row. fold (decohere_cell n msk row) cs) rs buf ! j =
     (if \<exists>r \<in> set rs. \<exists>c \<in> set cs. measured_apart msk r c
            \<and> (j = cell_index n r c \<or> j = cell_index n r c + 1)
      then Num 0 else buf ! j)"
proof (induction rs arbitrary: buf)
  case Nil
  then show ?case by simp
next
  case (Cons r rs)
  have "j < length (fold (decohere_cell n msk r) cs buf)" using Cons.prems by simp
  from Cons.IH [OF this] show ?case
    using Cons.prems by (auto simp: nth_fold_decohere_cell)
qed

lemma cell_index_inj:
  assumes "c < n" and "col < n"
  shows "cell_index n r c = cell_index n row col \<longleftrightarrow> r = row \<and> c = col"
    and "cell_index n r c + 1 = cell_index n row col + 1 \<longleftrightarrow> r = row \<and> c = col"
    and "cell_index n r c \<noteq> cell_index n row col + 1"
    and "cell_index n r c + 1 \<noteq> cell_index n row col"
proof -
  have "r * n + c = row * n + col \<longleftrightarrow> r = row \<and> c = col"
  proof
    assume e: "r * n + c = row * n + col"
    have "(r * n + c) div n = r" "(r * n + c) mod n = c"
      "(row * n + col) div n = row" "(row * n + col) mod n = col"
      using assms by simp_all
    with e show "r = row \<and> c = col" by metis
  qed simp
  moreover have "(r * n + c) * 2 = (row * n + col) * 2 \<longleftrightarrow> r * n + c = row * n + col"
    by presburger
  ultimately show "cell_index n r c = cell_index n row col \<longleftrightarrow> r = row \<and> c = col"
    and "cell_index n r c + 1 = cell_index n row col + 1 \<longleftrightarrow> r = row \<and> c = col"
    unfolding cell_index_def by simp_all
  show "cell_index n r c \<noteq> cell_index n row col + 1"
    unfolding cell_index_def by presburger
  show "cell_index n r c + 1 \<noteq> cell_index n row col"
    unfolding cell_index_def by presburger
qed

lemma cell_index_bound:
  assumes "row < n" and "col < n"
  shows "cell_index n row col + 1 < 2 * n * n"
proof -
  have "row * n + col < Suc row * n" using assms by simp
  also have "\<dots> \<le> n * n" using assms by (intro mult_le_mono) simp_all
  finally show ?thesis by (simp add: cell_index_def)
qed

lemma touched_iff:
  assumes "row < n" and "col < n"
  shows "(\<exists>r \<in> set [0..<n]. \<exists>c \<in> set [0..<n]. measured_apart msk r c
            \<and> (cell_index n row col = cell_index n r c \<or> cell_index n row col = cell_index n r c + 1))
         \<longleftrightarrow> measured_apart msk row col" (is "?L = ?R")
    and "(\<exists>r \<in> set [0..<n]. \<exists>c \<in> set [0..<n]. measured_apart msk r c
            \<and> (cell_index n row col + 1 = cell_index n r c
               \<or> cell_index n row col + 1 = cell_index n r c + 1))
         \<longleftrightarrow> measured_apart msk row col" (is "?L' = ?R")
proof -
  show "?L = ?R"
  proof
    assume ?L
    then obtain r c where rc: "c < n" "measured_apart msk r c"
      "cell_index n row col = cell_index n r c \<or> cell_index n row col = cell_index n r c + 1"
      by auto
    from rc(3) cell_index_inj [OF rc(1) assms(2), of r row] have "r = row \<and> c = col"
      by metis
    with rc(2) show ?R by simp
  next
    assume ?R
    with assms show ?L by (intro bexI [of _ row] bexI [of _ col]) simp_all
  qed
  show "?L' = ?R"
  proof
    assume ?L'
    then obtain r c where rc: "c < n" "measured_apart msk r c"
      "cell_index n row col + 1 = cell_index n r c
       \<or> cell_index n row col + 1 = cell_index n r c + 1"
      by auto
    from rc(3) cell_index_inj [OF rc(1) assms(2), of r row] have "r = row \<and> c = col"
      by metis
    with rc(2) show ?R by simp
  next
    assume ?R
    with assms show ?L' by (intro bexI [of _ row] bexI [of _ col]) simp_all
  qed
qed

lemma decohered_buffer_nth:
  assumes "length buf = 2 * n * n" and "row < n" and "col < n"
  shows "fold (\<lambda>row. fold (decohere_cell n msk row) [0..<n]) [0..<n] buf ! cell_index n row col
           = (if measured_apart msk row col then Num 0 else buf ! cell_index n row col)"
    and "fold (\<lambda>row. fold (decohere_cell n msk row) [0..<n]) [0..<n] buf ! (cell_index n row col + 1)
           = (if measured_apart msk row col then Num 0 else buf ! (cell_index n row col + 1))"
proof -
  have b: "cell_index n row col < length buf" "cell_index n row col + 1 < length buf"
    using cell_index_bound [OF assms(2,3)] assms(1) by simp_all
  show "fold (\<lambda>row. fold (decohere_cell n msk row) [0..<n]) [0..<n] buf ! cell_index n row col
           = (if measured_apart msk row col then Num 0 else buf ! cell_index n row col)"
    unfolding nth_fold_rows [OF b(1)] touched_iff(1) [OF assms(2,3)] ..
  show "fold (\<lambda>row. fold (decohere_cell n msk row) [0..<n]) [0..<n] buf ! (cell_index n row col + 1)
           = (if measured_apart msk row col then Num 0 else buf ! (cell_index n row col + 1))"
    unfolding nth_fold_rows [OF b(2)] touched_iff(2) [OF assms(2,3)] ..
qed

lemma measured_apart_diagonal: "\<not> measured_apart msk row row"
  by (simp add: measured_apart_def js_xor_def js_and_def ToInt32_def)

lemma measured_apart_mask_0: "\<not> measured_apart 0 row col"
  by (simp add: measured_apart_def)

lemma decohere_shape:
  assumes "width m = n" and "height m = n" and "length (rawBuffer m) = 2 * n * n"
  shows "width (decohereMeasuredBitsInDensityMatrix m msk) = n"
    and "height (decohereMeasuredBitsInDensityMatrix m msk) = n"
    and "length (rawBuffer (decohereMeasuredBitsInDensityMatrix m msk)) = 2 * n * n"
  using assms
  by (simp_all add: decohereMeasuredBitsInDensityMatrix_def Float32Array_from_def Let_def)

lemma decohere_entry:
  assumes "width m = n" and "length (rawBuffer m) = 2 * n * n"
    and "r < n" and "c < n" and "msk \<noteq> 0"
  shows "entry (decohereMeasuredBitsInDensityMatrix m msk) r c
           = (if measured_apart msk r c then (Some (Num 0), Some (Num 0))
              else fround_entry (entry m r c))"
proof -
  let ?R = "decohereMeasuredBitsInDensityMatrix m msk"
  let ?buf = "Float32Array_from (rawBuffer m)"
  have len: "length ?buf = 2 * n * n"
    using assms(2) by (simp add: Float32Array_from_def)
  have b: "cell_index n r c < 2 * n * n" "cell_index n r c + 1 < 2 * n * n"
    using cell_index_bound [OF assms(3,4)] by simp_all
  have R: "width ?R = n"
    "rawBuffer ?R = fold (\<lambda>row. fold (decohere_cell n msk row) [0..<n]) [0..<n] ?buf"
    using assms(1,5) by (simp_all add: decohereMeasuredBitsInDensityMatrix_def Let_def)
  have rounded: "?buf ! cell_index n r c = fround (rawBuffer m ! cell_index n r c)"
    "?buf ! (cell_index n r c + 1) = fround (rawBuffer m ! (cell_index n r c + 1))"
    using b assms(2) by (simp_all add: Float32Array_from_def)
  have "entry ?R r c
      = (Some (rawBuffer ?R ! cell_index n r c), Some (rawBuffer ?R ! (cell_index n r c + 1)))"
    using b R len by (simp add: entry_def Float32Array_get_def cell_index_def)
  also have "\<dots> = (if measured_apart msk r c then (Some (Num 0), Some (Num 0))
                     else (Some (fround (rawBuffer m ! cell_index n r c)),
                           Some (fround (rawBuffer m ! (cell_index n r c + 1)))))"
    unfolding R(2) decohered_buffer_nth [OF len assms(3,4)] rounded by simp
  also have "(Some (fround (rawBuffer m ! cell_index n r c)),
              Some (fround (rawBuffer m ! (cell_index n r c + 1))))
             = fround_entry (entry m r c)"
    using b assms(1,2)
    by (simp add: fround_entry_def entry_def Float32Array_get_def cell_index_def)
  finally show ?thesis .
qed

lemma fround_entry_single:
  assumes "\<forall>x \<in> set (rawBuffer m). fround x = x"
  shows "fround_entry (entry m r c) = entry m r c"
  using assms by (simp add: fround_entry_def entry_def Float32Array_get_def)

section \<open>Facts about the scattering of densities\<close>

lemma map_sum_id_Inr_iff: "map_sum id f x = Inr out \<longleftrightarrow> (\<exists>y. x = Inr y \<and> out = f y)"
  by (cases x) auto

lemma scatter_rows_length:
  "scatter_rows nm raw sp meas disp used rows = Inr out \<Longrightarrow> length out = length rows"
proof (induction rows arbitrary: used out)
  case Nil
  then show ?case by simp
next
  case (Cons row rows)
  then show ?case
    by (auto simp: Let_def map_sum_id_Inr_iff split: if_splits option.splits)
qed

lemma scatter_rows_unflagged:
  "scatter_rows nm raw sp meas disp used rows = Inr out \<Longrightarrow> i < length rows \<Longrightarrow>
   js_and disp (js_shl 1 (int (rows ! i))) = 0 \<Longrightarrow> out ! i = Some nm"
proof (induction rows arbitrary: used out i)
  case Nil
  then show ?case by simp
next
  case (Cons row rows)
  show ?case
  proof (cases i)
    case 0
    with Cons.prems show ?thesis
      by (auto simp: Let_def map_sum_id_Inr_iff split: if_splits option.splits)
  next
    case (Suc j)
    with Cons.prems Cons.IH [of _ _ j] show ?thesis
      by (auto simp: Let_def map_sum_id_Inr_iff split: if_splits option.splits)
  qed
qed

lemma scatter_unflagged:
  assumes "scatterAndDecohereDensities raw (int n) 1 meas disp = Inr out"
    and "w < n" and "js_and disp (js_shl 1 (int w)) = 0"
  shows "length out = n"
    and "out ! w = Some \<lparr>width = 2, height = 2,
                         rawBuffer = [NaN, NaN, NaN, NaN, NaN, NaN, NaN, NaN]\<rparr>"
proof -
  have two: "js_shl 1 1 = 2"
    using js_shl_1_pow2 [of 1] by simp
  let ?nm = "\<lparr>width = 2, height = 2, rawBuffer = [NaN, NaN, NaN, NaN, NaN, NaN, NaN, NaN]\<rparr>"
  from assms(1) have rows: "scatter_rows ?nm raw 1 meas disp 0 [0..<n] = Inr out"
    by (simp add: scatterAndDecohereDensities_def two NaN_matrix_2x2)
  from scatter_rows_length [OF rows] show "length out = n" by simp
  from scatter_rows_unflagged [OF rows, of w] assms(2,3) show "out ! w = Some ?nm" by simp
qed
section \<open>The fallback of fromCircuitAtTime\<close>

text \<open>
  C1, amended. For every CircuitDefinition of at most 30 wires and every time value,
  \<open>fromCircuitAtTime\<close> does not throw. When the internal computation returns a
  snapshot, that snapshot is the result and nothing is notified. When it throws, the
  result is the degraded snapshot: no density matrices, a final state that is a column
  vector of \<open>2^numWires\<close> NaN entries, a NaN survival rate, an empty custom-stat map, and
  the circuit definition and time that were passed in; one notification is sent, with the
  error and the serialized circuit.
\<close>

theorem fromCircuitAtTime_degrades:
  assumes "numWires cd \<le> 30"
  shows "(\<forall>stats. noFallback cd t = Inr stats
            \<longrightarrow> fromCircuitAtTime noFallback toJson cd t = ([], Inr stats))
       \<and> (\<forall>ex. noFallback cd t = Inl ex
            \<longrightarrow> fromCircuitAtTime noFallback toJson cd t =
                 ([\<lparr>message = ''Defaulted to NaN results. Computing circuit values failed.'',
                    circuitJson = toJson cd, cause = ex\<rparr>],
                  Inr \<lparr>circuitDefinition = cd, time = t, qubitDensities = [],
                       finalState = \<lparr>width = 1, height = 2 ^ numWires cd,
                                     rawBuffer = replicate (2 * 2 ^ numWires cd) NaN\<rparr>,
                       postSelectionSurvivalRate = NaN,
                       customStatsProcessed = Map.empty\<rparr>))
       \<and> (\<exists>s. snd (fromCircuitAtTime noFallback toJson cd t) = Inr s)"
proof -
  have "Matrix_zero 1 (js_shl 1 (int (numWires cd)))
          = Matrix_zero (int 1) (int (2 ^ numWires cd))"
    using js_shl_1_pow2 [OF assms] by simp
  then have nan: "map_sum id (\<lambda>z. Matrix_times z NaN)
                    (Matrix_zero 1 (js_shl 1 (int (numWires cd))))
        = Inr \<lparr>width = 1, height = 2 ^ numWires cd,
               rawBuffer = replicate (2 * 2 ^ numWires cd) NaN\<rparr>"
    using Matrix_zero_times_NaN [of 1 "2 ^ numWires cd"] by simp
  show ?thesis
  proof (cases "noFallback cd t")
    case (Inl ex)
    from nan obtain z where
      "Matrix_zero 1 (js_shl 1 (int (numWires cd))) = Inr z"
      "Matrix_times z NaN = \<lparr>width = 1, height = 2 ^ numWires cd,
                               rawBuffer = replicate (2 * 2 ^ numWires cd) NaN\<rparr>"
      by (cases "Matrix_zero 1 (js_shl 1 (int (numWires cd)))") auto
    with Inl show ?thesis
      by (simp add: fromCircuitAtTime_def)
  next
    case (Inr stats)
    then show ?thesis by (simp add: fromCircuitAtTime_def)
  qed
qed

theorem fromCircuitAtTime_degrades_witness:
  "numWires \<lparr>numWires = 2, columns = [[Some ''__error__'', None]]\<rparr> \<le> 30
   \<and> fromCircuitAtTime (\<lambda>cd t. Inl (DetailedError ''Applied an Error Injection Gate''))
        (\<lambda>cd. columns cd) \<lparr>numWires = 2, columns = [[Some ''__error__'', None]]\<rparr> (Num 0)
     = ([\<lparr>message = ''Defaulted to NaN results. Computing circuit values failed.'',
          circuitJson = [[Some ''__error__'', None]],
          cause = DetailedError ''Applied an Error Injection Gate''\<rparr>],
        Inr (\<lparr>circuitDefinition = \<lparr>numWires = 2, columns = [[Some ''__error__'', None]]\<rparr>,
             time = Num 0, qubitDensities = [],
             finalState = \<lparr>width = 1, height = 4,
                           rawBuffer = [NaN, NaN, NaN, NaN, NaN, NaN, NaN, NaN]\<rparr>,
             postSelectionSurvivalRate = NaN,
             customStatsProcessed = Map.empty\<rparr> :: (string, unit) CircuitStats))"
proof -
  have h: "numWires \<lparr>numWires = 2, columns = [[Some ''__error__'', None]]\<rparr> \<le> 30"
    by simp
  have r: "replicate (2 * 2 ^ 2) NaN = [NaN, NaN, NaN, NaN, NaN, NaN, NaN, NaN]"
    by (simp add: numeral_eq_Suc)
  show ?thesis
    using h r fromCircuitAtTime_degrades [OF h,
        of "\<lambda>cd t. Inl (DetailedError ''Applied an Error Injection Gate'')
                     :: error + (string, unit) CircuitStats" "Num 0"
           "\<lambda>cd. columns cd"]
    by simp
qed

text \<open>
  C1 as stated fails on a circuit of 32 wires: \<open>1 << 32\<close> is 1, so when the internal
  computation throws, the final state of the degraded snapshot has one entry, not
  \<open>2^32\<close>.
\<close>

theorem fromCircuitAtTime_32_wires:
  "snd (fromCircuitAtTime (\<lambda>cd t. Inl (DetailedError ''Applied an Error Injection Gate''))
          (\<lambda>cd. columns cd) \<lparr>numWires = 32, columns = []\<rparr> (Num 0))
     = Inr (\<lparr>circuitDefinition = \<lparr>numWires = 32, columns = []\<rparr>,
             time = Num 0, qubitDensities = [],
             finalState = \<lparr>width = 1, height = 1, rawBuffer = [NaN, NaN]\<rparr>,
             postSelectionSurvivalRate = NaN,
             customStatsProcessed = Map.empty\<rparr> :: (string, unit) CircuitStats)
   \<and> height \<lparr>width = 1, height = 1, rawBuffer = [NaN, NaN]\<rparr> \<noteq> 2 ^ 32"
proof -
  have "js_shl 1 (int 32) = 1"
    by (simp add: js_shl_def ToInt32_def)
  moreover have "replicate 2 (Num 0) = [Num 0, Num 0]"
    by (simp add: numeral_2_eq_2)
  ultimately show ?thesis
    by (simp add: fromCircuitAtTime_def Matrix_zero_def Float32Array_new_def Matrix_times_def
        number_times_def number_minus_def number_plus_def)
qed

section \<open>Controls: conjunction\<close>

text \<open>
  C2, amended. For Controls values \<open>a\<close> and \<open>b\<close> whose desired-value masks are signed
  32-bit integers and whose conjunction does not fail, the conjunction allows a basis
  index exactly when both \<open>a\<close> and \<open>b\<close> allow it.
\<close>

theorem and_allowsState:
  assumes "Controls_inv a" and "Controls_inv b" and "Controls_and a b = Inr c"
    and "is_int32 (desiredValueMask a)" and "is_int32 (desiredValueMask b)"
  shows "allowsState c s = (allowsState a s \<and> allowsState b s)"
proof -
  from assms(3) have agree:
    "js_and (desiredValueMask b) (inclusionMask a) = js_and (desiredValueMask a) (inclusionMask b)"
    by (simp add: Controls_and_def split: if_splits)
  with assms(1-3) have c: "c = \<lparr>inclusionMask = js_or (inclusionMask a) (inclusionMask b),
                        desiredValueMask = js_or (desiredValueMask a) (desiredValueMask b)\<rparr>"
    by (simp add: Controls_and_agreeing)
  then have "is_int32 (desiredValueMask c)"
    by (simp add: js_or_def)
  then have "allowsState c s \<longleftrightarrow>
      (ToInt32 (inclusionMask a) OR ToInt32 (inclusionMask b)) AND ToInt32 s
        = ToInt32 (desiredValueMask a) OR ToInt32 (desiredValueMask b)"
    using c by (simp add: allowsState_int32)
  also have "\<dots> \<longleftrightarrow>
      ToInt32 (inclusionMask a) AND ToInt32 s = ToInt32 (desiredValueMask a)
      \<and> ToInt32 (inclusionMask b) AND ToInt32 s = ToInt32 (desiredValueMask b)"
    using assms(1,2) agree
    by (intro merged_allows) (simp_all add: Controls_inv_words js_and_eq_iff)
  also have "\<dots> \<longleftrightarrow> allowsState a s \<and> allowsState b s"
    using assms(4,5) by (simp add: allowsState_int32)
  finally show ?thesis .
qed

theorem and_allowsState_witness:
  "Controls_inv \<lparr>inclusionMask = 1, desiredValueMask = 1\<rparr>
   \<and> Controls_inv \<lparr>inclusionMask = 2, desiredValueMask = 0\<rparr>
   \<and> Controls_and \<lparr>inclusionMask = 1, desiredValueMask = 1\<rparr>
        \<lparr>inclusionMask = 2, desiredValueMask = 0\<rparr>
       = Inr \<lparr>inclusionMask = 3, desiredValueMask = 1\<rparr>
   \<and> is_int32 1 \<and> is_int32 0
   \<and> allowsState \<lparr>inclusionMask = 3, desiredValueMask = 1\<rparr> 5
       = (allowsState \<lparr>inclusionMask = 1, desiredValueMask = 1\<rparr> 5
          \<and> allowsState \<lparr>inclusionMask = 2, desiredValueMask = 0\<rparr> 5)"
proof -
  have a: "Controls_inv \<lparr>inclusionMask = 1, desiredValueMask = 1\<rparr>"
    by (simp add: Controls_inv_def js_and_def js_not_def ToInt32_def)
  have b: "Controls_inv \<lparr>inclusionMask = 2, desiredValueMask = 0\<rparr>"
    by (simp add: Controls_inv_def js_and_def js_not_def ToInt32_def)
  have c: "Controls_and \<lparr>inclusionMask = 1, desiredValueMask = 1\<rparr>
             \<lparr>inclusionMask = 2, desiredValueMask = 0\<rparr>
           = Inr \<lparr>inclusionMask = 3, desiredValueMask = 1\<rparr>"
    by (simp add: Controls_and_def Controls_new_def js_and_def js_or_def js_not_def ToInt32_def)
  have r: "is_int32 (desiredValueMask \<lparr>inclusionMask = 1, desiredValueMask = 1\<rparr>)"
    "is_int32 (desiredValueMask \<lparr>inclusionMask = 2, desiredValueMask = 0\<rparr>)"
    by (simp_all add: is_int32_def)
  show ?thesis using a b c r and_allowsState [OF a b c r, of 5] by simp
qed

text \<open>
  C2 as stated fails for a mask that holds bit 31 as the unsigned number 2147483648:
  \<open>a = new Controls(2147483648, 2147483648)\<close> is accepted and allows no state, since
  \<open>&\<close> returns -2147483648, while \<open>a.and(NONE)\<close> holds -2147483648 and allows the
  state 2147483648.
\<close>

theorem unsigned_bit_31_allowed_only_after_and:
  "Controls_new 2147483648 2147483648
     = Inr \<lparr>inclusionMask = 2147483648, desiredValueMask = 2147483648\<rparr>
   \<and> Controls_and \<lparr>inclusionMask = 2147483648, desiredValueMask = 2147483648\<rparr> Controls_NONE
       = Inr \<lparr>inclusionMask = - 2147483648, desiredValueMask = - 2147483648\<rparr>
   \<and> allowsState \<lparr>inclusionMask = - 2147483648, desiredValueMask = - 2147483648\<rparr> 2147483648
   \<and> \<not> (allowsState \<lparr>inclusionMask = 2147483648, desiredValueMask = 2147483648\<rparr> 2147483648
          \<and> allowsState Controls_NONE 2147483648)"
  by (simp add: Controls_new_def Controls_and_def Controls_NONE_def allowsState_def
      js_and_def js_or_def js_not_def ToInt32_def)

text \<open>
  C3. For Controls values \<open>a\<close> and \<open>b\<close>, \<open>a.and(b)\<close> fails, with the error
  "Contradictory controls.", exactly when
  \<open>b.desiredValueMask & a.inclusionMask != a.desiredValueMask & b.inclusionMask\<close>, which
  is to say that some bit that both include has different desired values in the two;
  when it does not fail it returns the bitwise OR of the inclusion masks and of the
  desired-value masks.
\<close>

theorem and_fails_iff_contradiction:
  assumes "Controls_inv a" and "Controls_inv b"
  shows "((\<exists>e. Controls_and a b = Inl e)
            \<longleftrightarrow> js_and (desiredValueMask b) (inclusionMask a)
                  \<noteq> js_and (desiredValueMask a) (inclusionMask b))
       \<and> (js_and (desiredValueMask b) (inclusionMask a)
            \<noteq> js_and (desiredValueMask a) (inclusionMask b)
            \<longrightarrow> Controls_and a b = Inl (DetailedError ''Contradictory controls.''))
       \<and> (js_and (desiredValueMask b) (inclusionMask a)
            \<noteq> js_and (desiredValueMask a) (inclusionMask b)
            \<longleftrightarrow> (\<exists>k x y. 0 \<le> k \<and> k < 32 \<and> desiredValueFor a k = Some x
                          \<and> desiredValueFor b k = Some y \<and> x \<noteq> y))
       \<and> (js_and (desiredValueMask b) (inclusionMask a)
            = js_and (desiredValueMask a) (inclusionMask b)
            \<longrightarrow> Controls_and a b =
                  Inr \<lparr>inclusionMask = js_or (inclusionMask a) (inclusionMask b),
                       desiredValueMask = js_or (desiredValueMask a) (desiredValueMask b)\<rparr>)"
proof (intro conjI impI)
  show "(\<exists>e. Controls_and a b = Inl e)
          \<longleftrightarrow> js_and (desiredValueMask b) (inclusionMask a)
                \<noteq> js_and (desiredValueMask a) (inclusionMask b)"
  proof (cases "js_and (desiredValueMask b) (inclusionMask a)
                = js_and (desiredValueMask a) (inclusionMask b)")
    case True
    with assms show ?thesis by (simp add: Controls_and_agreeing)
  next
    case False
    then show ?thesis by (simp add: Controls_and_def)
  qed
next
  assume "js_and (desiredValueMask b) (inclusionMask a)
          \<noteq> js_and (desiredValueMask a) (inclusionMask b)"
  then show "Controls_and a b = Inl (DetailedError ''Contradictory controls.'')"
    by (simp add: Controls_and_def)
next
  show "js_and (desiredValueMask b) (inclusionMask a)
          \<noteq> js_and (desiredValueMask a) (inclusionMask b)
          \<longleftrightarrow> (\<exists>k x y. 0 \<le> k \<and> k < 32 \<and> desiredValueFor a k = Some x
                        \<and> desiredValueFor b k = Some y \<and> x \<noteq> y)"
    using disagree_desiredValueFor [OF assms] .
next
  assume "js_and (desiredValueMask b) (inclusionMask a)
          = js_and (desiredValueMask a) (inclusionMask b)"
  with assms show "Controls_and a b =
      Inr \<lparr>inclusionMask = js_or (inclusionMask a) (inclusionMask b),
           desiredValueMask = js_or (desiredValueMask a) (desiredValueMask b)\<rparr>"
    by (rule Controls_and_agreeing)
qed

theorem and_fails_iff_contradiction_witness:
  "Controls_inv \<lparr>inclusionMask = 1, desiredValueMask = 1\<rparr>
   \<and> Controls_inv \<lparr>inclusionMask = 3, desiredValueMask = 2\<rparr>
   \<and> js_and (desiredValueMask \<lparr>inclusionMask = 3, desiredValueMask = 2\<rparr>)
         (inclusionMask \<lparr>inclusionMask = 1, desiredValueMask = 1\<rparr>)
       \<noteq> js_and (desiredValueMask \<lparr>inclusionMask = 1, desiredValueMask = 1\<rparr>)
           (inclusionMask \<lparr>inclusionMask = 3, desiredValueMask = 2\<rparr>)
   \<and> Controls_and \<lparr>inclusionMask = 1, desiredValueMask = 1\<rparr>
        \<lparr>inclusionMask = 3, desiredValueMask = 2\<rparr>
       = Inl (DetailedError ''Contradictory controls.'')"
proof -
  have a: "Controls_inv \<lparr>inclusionMask = 1, desiredValueMask = 1\<rparr>"
    by (simp add: Controls_inv_def js_and_def js_not_def ToInt32_def)
  have b: "Controls_inv \<lparr>inclusionMask = 3, desiredValueMask = 2\<rparr>"
    by (simp add: Controls_inv_def js_and_def js_not_def ToInt32_def)
  have d: "js_and (desiredValueMask \<lparr>inclusionMask = 3, desiredValueMask = 2\<rparr>)
         (inclusionMask \<lparr>inclusionMask = 1, desiredValueMask = 1\<rparr>)
       \<noteq> js_and (desiredValueMask \<lparr>inclusionMask = 1, desiredValueMask = 1\<rparr>)
           (inclusionMask \<lparr>inclusionMask = 3, desiredValueMask = 2\<rparr>)"
    by (simp add: js_and_def ToInt32_def)
  show ?thesis using a b d and_fails_iff_contradiction [OF a b] by blast
qed

text \<open>
  C4, amended. For every Controls value \<open>c\<close>, both \<open>c.and(NONE)\<close> and \<open>NONE.and(c)\<close>
  succeed, and return the masks of \<open>c\<close> as \<open>|\<close> returns them, cut to signed 32-bit
  integers: a Controls equal to \<open>c\<close> when the masks of \<open>c\<close> are signed 32-bit
  integers, and then only.
\<close>

theorem and_NONE_identity:
  assumes "Controls_inv c"
  shows "Controls_and c Controls_NONE
           = Inr \<lparr>inclusionMask = js_or (inclusionMask c) 0,
                  desiredValueMask = js_or (desiredValueMask c) 0\<rparr>
       \<and> Controls_and Controls_NONE c
           = Inr \<lparr>inclusionMask = js_or 0 (inclusionMask c),
                  desiredValueMask = js_or 0 (desiredValueMask c)\<rparr>
       \<and> ((\<exists>r. Controls_and c Controls_NONE = Inr r \<and> isEqualTo r c)
            \<longleftrightarrow> is_int32 (inclusionMask c) \<and> is_int32 (desiredValueMask c))
       \<and> ((\<exists>r. Controls_and Controls_NONE c = Inr r \<and> isEqualTo r c)
            \<longleftrightarrow> is_int32 (inclusionMask c) \<and> is_int32 (desiredValueMask c))
       \<and> (is_int32 (inclusionMask c) \<and> is_int32 (desiredValueMask c)
            \<longrightarrow> Controls_and c Controls_NONE = Inr c \<and> Controls_and Controls_NONE c = Inr c)"
proof -
  have inner: "js_and (sint (ToInt32 (desiredValueMask c)))
                 (js_not (sint (ToInt32 (inclusionMask c)))) = 0"
    using assms by (simp add: js_and_eq_0 Controls_inv_words)
  have l: "Controls_and c Controls_NONE
           = Inr \<lparr>inclusionMask = js_or (inclusionMask c) 0,
                  desiredValueMask = js_or (desiredValueMask c) 0\<rparr>"
    using inner by (simp add: Controls_and_def Controls_NONE_def Controls_new_def)
  have r: "Controls_and Controls_NONE c
           = Inr \<lparr>inclusionMask = js_or 0 (inclusionMask c),
                  desiredValueMask = js_or 0 (desiredValueMask c)\<rparr>"
    using inner by (simp add: Controls_and_def Controls_NONE_def Controls_new_def)
  show ?thesis
    unfolding l r by (auto simp: isEqualTo_def is_int32_iff)
qed

theorem and_NONE_identity_witness:
  "Controls_inv \<lparr>inclusionMask = 6, desiredValueMask = 4\<rparr>
   \<and> is_int32 6 \<and> is_int32 4
   \<and> Controls_and \<lparr>inclusionMask = 6, desiredValueMask = 4\<rparr> Controls_NONE
       = Inr \<lparr>inclusionMask = 6, desiredValueMask = 4\<rparr>
   \<and> Controls_and Controls_NONE \<lparr>inclusionMask = 6, desiredValueMask = 4\<rparr>
       = Inr \<lparr>inclusionMask = 6, desiredValueMask = 4\<rparr>"
proof -
  have c: "Controls_inv \<lparr>inclusionMask = 6, desiredValueMask = 4\<rparr>"
    by (simp add: Controls_inv_def js_and_def js_not_def ToInt32_def)
  have r: "is_int32 6" "is_int32 4"
    by (simp_all add: is_int32_def)
  show ?thesis using c r and_NONE_identity [OF c] by (simp add: ToInt32_def)
qed

text \<open>
  C4 as stated fails for \<open>c = new Controls(2147483648, 2147483648)\<close>: \<open>c.and(NONE)\<close>
  and \<open>NONE.and(c)\<close> hold -2147483648, which \<open>isEqualTo\<close> tells from 2147483648.
\<close>

theorem unsigned_bit_31_not_equal_after_NONE:
  "Controls_new 2147483648 2147483648
     = Inr \<lparr>inclusionMask = 2147483648, desiredValueMask = 2147483648\<rparr>
   \<and> Controls_and \<lparr>inclusionMask = 2147483648, desiredValueMask = 2147483648\<rparr> Controls_NONE
       = Inr \<lparr>inclusionMask = - 2147483648, desiredValueMask = - 2147483648\<rparr>
   \<and> Controls_and Controls_NONE \<lparr>inclusionMask = 2147483648, desiredValueMask = 2147483648\<rparr>
       = Inr \<lparr>inclusionMask = - 2147483648, desiredValueMask = - 2147483648\<rparr>
   \<and> \<not> isEqualTo \<lparr>inclusionMask = - 2147483648, desiredValueMask = - 2147483648\<rparr>
          \<lparr>inclusionMask = 2147483648, desiredValueMask = 2147483648\<rparr>"
  by (simp add: Controls_new_def Controls_and_def Controls_NONE_def isEqualTo_def
      js_and_def js_or_def js_not_def ToInt32_def)

text \<open>
  C5. Every Controls value that the constructor, \<open>Controls.bit\<close> and \<open>and\<close> produce
  satisfies \<open>desiredValueMask & ~inclusionMask == 0\<close>: the constructor throws on a pair
  that violates it and on no other pair, \<open>Controls.bit\<close> returns a value for every
  bit index that is not negative and that value satisfies it, and \<open>a.and(b)\<close> of two
  values that satisfy it returns only a value that satisfies it.
\<close>

theorem Controls_invariant_preserved:
  "(Controls_new i d = Inl (DetailedError ''Desired un-included bits'')
      \<longleftrightarrow> js_and d (js_not i) \<noteq> 0)
   \<and> (\<forall>c. Controls_new i d = Inr c \<longrightarrow> Controls_inv c)
   \<and> (\<forall>c. Controls_bit k v = Inr c \<longrightarrow> Controls_inv c)
   \<and> (0 \<le> k \<longrightarrow> (\<exists>c. Controls_bit k v = Inr c \<and> Controls_inv c
                        \<and> inclusionMask c = js_shl 1 k
                        \<and> desiredValueMask c = (if v then js_shl 1 k else 0)))
   \<and> (\<forall>c. Controls_inv a \<and> Controls_inv b \<and> Controls_and a b = Inr c \<longrightarrow> Controls_inv c)"
proof (intro conjI allI impI)
  show "Controls_new i d = Inl (DetailedError ''Desired un-included bits'')
          \<longleftrightarrow> js_and d (js_not i) \<noteq> 0"
    by (simp add: Controls_new_def)
next
  fix c assume "Controls_new i d = Inr c"
  then show "Controls_inv c"
    by (auto simp: Controls_new_Inr_iff Controls_inv_def)
next
  fix c assume "Controls_bit k v = Inr c"
  then show "Controls_inv c"
    by (auto simp: Controls_bit_def Controls_new_Inr_iff Controls_inv_def split: if_splits)
next
  assume "0 \<le> k"
  moreover have "js_and (js_shl 1 k) (js_not (js_shl 1 k)) = 0"
    by (simp add: js_and_eq_0)
  ultimately show "\<exists>c. Controls_bit k v = Inr c \<and> Controls_inv c \<and> inclusionMask c = js_shl 1 k
                 \<and> desiredValueMask c = (if v then js_shl 1 k else 0)"
    by (simp add: Controls_bit_def Controls_new_def Controls_inv_def)
next
  fix c assume h: "Controls_inv a \<and> Controls_inv b \<and> Controls_and a b = Inr c"
  then have "Controls_new (js_or (inclusionMask a) (inclusionMask b))
               (js_or (desiredValueMask a) (desiredValueMask b)) = Inr c"
    by (simp add: Controls_and_def split: if_splits)
  then show "Controls_inv c"
    by (auto simp: Controls_new_Inr_iff Controls_inv_def)
qed

theorem Controls_invariant_preserved_witness:
  "Controls_new 1 3 = Inl (DetailedError ''Desired un-included bits'')
   \<and> Controls_bit 2 True = Inr \<lparr>inclusionMask = 4, desiredValueMask = 4\<rparr>
   \<and> Controls_inv \<lparr>inclusionMask = 4, desiredValueMask = 4\<rparr>
   \<and> Controls_inv \<lparr>inclusionMask = 1, desiredValueMask = 0\<rparr>
   \<and> Controls_and \<lparr>inclusionMask = 4, desiredValueMask = 4\<rparr>
        \<lparr>inclusionMask = 1, desiredValueMask = 0\<rparr>
       = Inr \<lparr>inclusionMask = 5, desiredValueMask = 4\<rparr>
   \<and> Controls_inv \<lparr>inclusionMask = 5, desiredValueMask = 4\<rparr>"
  using Controls_invariant_preserved [of 1 3 2 True
      "\<lparr>inclusionMask = 4, desiredValueMask = 4\<rparr>" "\<lparr>inclusionMask = 1, desiredValueMask = 0\<rparr>"]
  by (simp add: Controls_new_def Controls_bit_def Controls_and_def Controls_inv_def
      js_shl_def js_and_def js_or_def js_not_def ToInt32_def)

section \<open>Queries on a snapshot\<close>

text \<open>
  C6, amended. For every snapshot, every wire index that is not negative and every
  column index, \<open>qubitDensityMatrix(wire, col)\<close> returns \<open>[[1,0],[0,0]]\<close> when
  \<open>col < 0\<close> or \<open>wire >= numWires\<close>. Otherwise it clamps \<open>col\<close> to the index of the
  last computed column and looks up the matrix stored there for the wire. It returns
  the 2 by 2 all-NaN matrix when the slot was never computed: when no column was
  computed, when the column has no entry for the wire, and when the column is the array
  that \<open>scatterAndDecohereDensities\<close> built, for single qubits, from a display mask
  that does not flag the wire.
\<close>

theorem qubitDensityMatrix_cases:
  assumes "0 \<le> wire"
  shows "(col_negative col \<or> int (numWires (circuitDefinition s)) \<le> wire \<longrightarrow>
            qubitDensityMatrix s wire col =
              Inr \<lparr>width = 2, height = 2,
                   rawBuffer = [Num 1, Num 0, Num 0, Num 0, Num 0, Num 0, Num 0, Num 0]\<rparr>)
       \<and> (\<not> col_negative col \<and> wire < int (numWires (circuitDefinition s)) \<longrightarrow>
            (let last = int (length (qubitDensities s)) - 1;
                 c = (case col of Col k \<Rightarrow> min k last | Infinity \<Rightarrow> last)
             in (qubitDensities s = [] \<longleftrightarrow> c < 0)
                \<and> c \<le> last
                \<and> (qubitDensities s \<noteq> []
                     \<and> scatterAndDecohereDensities rawMatrices
                           (int (numWires (circuitDefinition s))) 1 isMeasuredMask hasDisplayMask
                         = Inr (map Some (qubitDensities s ! nat c))
                     \<and> js_and hasDisplayMask (js_shl 1 wire) = 0
                    \<longrightarrow> qubitDensityMatrix s wire col =
                          Inr \<lparr>width = 2, height = 2,
                               rawBuffer = [NaN, NaN, NaN, NaN, NaN, NaN, NaN, NaN]\<rparr>)
                \<and> qubitDensityMatrix s wire col =
                   (if qubitDensities s = [] \<or> int (length (qubitDensities s ! nat c)) \<le> wire
                    then Inr \<lparr>width = 2, height = 2,
                              rawBuffer = [NaN, NaN, NaN, NaN, NaN, NaN, NaN, NaN]\<rparr>
                    else Inr (qubitDensities s ! nat c ! nat wire))))"
proof (intro conjI impI)
  assume "col_negative col \<or> int (numWires (circuitDefinition s)) \<le> wire"
  then show "qubitDensityMatrix s wire col =
              Inr \<lparr>width = 2, height = 2,
                   rawBuffer = [Num 1, Num 0, Num 0, Num 0, Num 0, Num 0, Num 0, Num 0]\<rparr>"
    using assms zero_qubit_density by (simp add: qubitDensityMatrix_def)
next
  assume h: "\<not> col_negative col \<and> wire < int (numWires (circuitDefinition s))"
  let ?last = "int (length (qubitDensities s)) - 1"
  let ?c = "case col of Col k \<Rightarrow> min k ?last | Infinity \<Rightarrow> ?last"
  let ?nan = "\<lparr>width = 2, height = 2, rawBuffer = [NaN, NaN, NaN, NaN, NaN, NaN, NaN, NaN]\<rparr>"
  have m: "Math_min col ?last = ?c"
    by (simp add: Math_min_def)
  have neg: "(qubitDensities s = []) = (?c < 0)"
    using h by (cases "qubitDensities s") (auto simp: col_negative_def split: colIndex.splits)
  have le: "?c \<le> ?last"
    by (auto split: colIndex.splits)
  have lookup: "qubitDensityMatrix s wire col =
      (if qubitDensities s = [] \<or> int (length (qubitDensities s ! nat ?c)) \<le> wire
       then Inr ?nan else Inr (qubitDensities s ! nat ?c ! nat wire))"
    using assms h NaN_matrix_2x2 neg by (simp add: qubitDensityMatrix_def Let_def m)
  have unflagged: "qubitDensityMatrix s wire col = Inr ?nan"
    if "qubitDensities s \<noteq> []"
      and built: "scatterAndDecohereDensities rawMatrices
                    (int (numWires (circuitDefinition s))) 1 isMeasuredMask hasDisplayMask
                  = Inr (map Some (qubitDensities s ! nat ?c))"
      and flag: "js_and hasDisplayMask (js_shl 1 wire) = 0"
  proof -
    have w: "nat wire < numWires (circuitDefinition s)" "int (nat wire) = wire"
      using assms h by linarith+
    from flag w(2) have flag': "js_and hasDisplayMask (js_shl 1 (int (nat wire))) = 0"
      by simp
    from scatter_unflagged [OF built w(1) flag']
    have len: "length (qubitDensities s ! nat ?c) = numWires (circuitDefinition s)"
      and nan: "map Some (qubitDensities s ! nat ?c) ! nat wire = Some ?nan"
      by simp_all
    from nan len w(1) have "qubitDensities s ! nat ?c ! nat wire = ?nan"
      by simp
    with lookup len w that(1) show ?thesis
      by simp
  qed
  show "let last = int (length (qubitDensities s)) - 1;
            c = (case col of Col k \<Rightarrow> min k last | Infinity \<Rightarrow> last)
        in (qubitDensities s = [] \<longleftrightarrow> c < 0)
           \<and> c \<le> last
           \<and> (qubitDensities s \<noteq> []
                \<and> scatterAndDecohereDensities rawMatrices
                      (int (numWires (circuitDefinition s))) 1 isMeasuredMask hasDisplayMask
                    = Inr (map Some (qubitDensities s ! nat c))
                \<and> js_and hasDisplayMask (js_shl 1 wire) = 0
               \<longrightarrow> qubitDensityMatrix s wire col =
                     Inr \<lparr>width = 2, height = 2,
                          rawBuffer = [NaN, NaN, NaN, NaN, NaN, NaN, NaN, NaN]\<rparr>)
           \<and> qubitDensityMatrix s wire col =
              (if qubitDensities s = [] \<or> int (length (qubitDensities s ! nat c)) \<le> wire
               then Inr \<lparr>width = 2, height = 2,
                         rawBuffer = [NaN, NaN, NaN, NaN, NaN, NaN, NaN, NaN]\<rparr>
               else Inr (qubitDensities s ! nat c ! nat wire))"
    unfolding Let_def using neg le lookup unflagged by blast
qed

theorem qubitDensityMatrix_cases_witness:
  "(0::int) \<le> 0
   \<and> scatterAndDecohereDensities
        [\<lparr>width = 2, height = 2,
          rawBuffer = [Num 0, Num 0, Num 0, Num 0, Num 0, Num 0, Num 1, Num 0]\<rparr>] 2 1 0 2
     = Inr [Some \<lparr>width = 2, height = 2,
                  rawBuffer = [NaN, NaN, NaN, NaN, NaN, NaN, NaN, NaN]\<rparr>,
            Some \<lparr>width = 2, height = 2,
                  rawBuffer = [Num 0, Num 0, Num 0, Num 0, Num 0, Num 0, Num 1, Num 0]\<rparr>]
   \<and> js_and 2 (js_shl 1 0) = 0
   \<and> qubitDensityMatrix
        (\<lparr>circuitDefinition = \<lparr>numWires = 2, columns = [[None, None]]\<rparr>,
          time = Num 0,
          qubitDensities =
            [[\<lparr>width = 2, height = 2,
               rawBuffer = [NaN, NaN, NaN, NaN, NaN, NaN, NaN, NaN]\<rparr>,
              \<lparr>width = 2, height = 2,
               rawBuffer = [Num 0, Num 0, Num 0, Num 0, Num 0, Num 0, Num 1, Num 0]\<rparr>]],
          finalState = \<lparr>width = 1, height = 4,
                        rawBuffer = [Num 0, Num 0, Num 0, Num 0, Num 1, Num 0, Num 0, Num 0]\<rparr>,
          postSelectionSurvivalRate = Num 1,
          customStatsProcessed = Map.empty\<rparr> :: (string, unit) CircuitStats) 0 (Col 5)
     = Inr \<lparr>width = 2, height = 2,
            rawBuffer = [NaN, NaN, NaN, NaN, NaN, NaN, NaN, NaN]\<rparr>"
proof -
  let ?nan = "\<lparr>width = 2, height = 2, rawBuffer = [NaN, NaN, NaN, NaN, NaN, NaN, NaN, NaN]\<rparr>"
  let ?one = "\<lparr>width = 2, height = 2,
               rawBuffer = [Num 0, Num 0, Num 0, Num 0, Num 0, Num 0, Num 1, Num 0]\<rparr>"
  let ?s = "\<lparr>circuitDefinition = \<lparr>numWires = 2, columns = [[None, None]]\<rparr>,
          time = Num 0,
          qubitDensities = [[?nan, ?one]],
          finalState = \<lparr>width = 1, height = 4,
                        rawBuffer = [Num 0, Num 0, Num 0, Num 0, Num 1, Num 0, Num 0, Num 0]\<rparr>,
          postSelectionSurvivalRate = Num 1,
          customStatsProcessed = Map.empty\<rparr> :: (string, unit) CircuitStats"
  have h: "(0::int) \<le> 0" by simp
  have sh: "js_shl 1 0 = 1" "js_shl 1 1 = 2"
    by (simp_all add: js_shl_def ToInt32_def)
  have flag: "js_and 2 (js_shl 1 0) = 0" "js_and 2 (js_shl 1 1) \<noteq> 0"
    "js_and (js_sar 0 1) (js_shl 1 1 - 1) = 0"
    unfolding sh by (simp_all add: js_and_def js_sar_def ToInt32_def)
  have rows: "[0..<nat (2 - 1 + 1)] = [0, 1]"
    by (simp add: upt_rec)
  have built: "scatterAndDecohereDensities [?one] 2 1 0 2 = Inr [Some ?nan, Some ?one]"
    unfolding scatterAndDecohereDensities_def sh NaN_matrix_2x2 rows
    using flag sh
    by (simp add: array_get_def decohereMeasuredBitsInDensityMatrix_def)
  have c: "int (numWires (circuitDefinition ?s)) = 2"
    "map Some (qubitDensities ?s !
        nat (case Col 5 of Col k \<Rightarrow> min k (int (length (qubitDensities ?s)) - 1)
             | Infinity \<Rightarrow> int (length (qubitDensities ?s)) - 1))
     = [Some ?nan, Some ?one]"
    by simp_all
  from qubitDensityMatrix_cases [OF h, of "Col 5" ?s "[?one]" 0 2] built flag(1) c
  have "qubitDensityMatrix ?s 0 (Col 5) = Inr ?nan"
    by (simp add: col_negative_def Let_def)
  with h built flag(1) show ?thesis by simp
qed

text \<open>
  C6 as stated fails at a negative wire index: with \<open>wire = -1\<close> and \<open>col = -1\<close> the
  column is before the circuit, and the query throws instead of returning
  \<open>[[1,0],[0,0]]\<close>.
\<close>

theorem before_circuit_at_wire_minus_1_throws:
  "col_negative (Col (- 1))
   \<and> qubitDensityMatrix
        (\<lparr>circuitDefinition = \<lparr>numWires = 1, columns = []\<rparr>,
          time = Num 0,
          qubitDensities = [],
          finalState = \<lparr>width = 1, height = 2, rawBuffer = [Num 1, Num 0, Num 0, Num 0]\<rparr>,
          postSelectionSurvivalRate = Num 1,
          customStatsProcessed = Map.empty\<rparr> :: (string, unit) CircuitStats) (- 1) (Col (- 1))
     = Inl (DetailedError ''Bad wireIndex'')
   \<and> qubitDensityMatrix
        (\<lparr>circuitDefinition = \<lparr>numWires = 1, columns = []\<rparr>,
          time = Num 0,
          qubitDensities = [],
          finalState = \<lparr>width = 1, height = 2, rawBuffer = [Num 1, Num 0, Num 0, Num 0]\<rparr>,
          postSelectionSurvivalRate = Num 1,
          customStatsProcessed = Map.empty\<rparr> :: (string, unit) CircuitStats) (- 1) (Col (- 1))
     \<noteq> Inr \<lparr>width = 2, height = 2,
             rawBuffer = [Num 1, Num 0, Num 0, Num 0, Num 0, Num 0, Num 0, Num 0]\<rparr>"
  by (simp add: qubitDensityMatrix_def col_negative_def)

text \<open>
  C7. For every snapshot, wire index and column index,
  \<open>controlledWireProbabilityJustAfter(wire, col)\<close> is element 6 of the raw buffer of the
  matrix that \<open>qubitDensityMatrix(wire, col)\<close> returns (and throws what that query
  throws); in a matrix of width 2 that element is the real part of the entry at row 1,
  column 1.
\<close>

theorem controlledWireProbabilityJustAfter_reads_entry:
  "controlledWireProbabilityJustAfter s wire col
     = (case qubitDensityMatrix s wire col of
          Inl e \<Rightarrow> Inl e
        | Inr m \<Rightarrow> Inr (Float32Array_get (rawBuffer m) 6))
   \<and> (\<forall>m. qubitDensityMatrix s wire col = Inr m \<and> width m = 2
          \<longrightarrow> controlledWireProbabilityJustAfter s wire col = Inr (fst (entry m 1 1)))
   \<and> cell_index 2 1 1 = 6"
  by (cases "qubitDensityMatrix s wire col")
     (simp_all add: controlledWireProbabilityJustAfter_def entry_def cell_index_def)

theorem controlledWireProbabilityJustAfter_reads_entry_witness:
  "qubitDensityMatrix
        (\<lparr>circuitDefinition = \<lparr>numWires = 1, columns = [[None]]\<rparr>,
          time = Num 0,
          qubitDensities =
            [[\<lparr>width = 2, height = 2,
               rawBuffer = [Num 0, Num 0, Num 0, Num 0, Num 0, Num 0, Num 1, Num 0]\<rparr>]],
          finalState = \<lparr>width = 1, height = 2, rawBuffer = [Num 0, Num 0, Num 1, Num 0]\<rparr>,
          postSelectionSurvivalRate = Num 1,
          customStatsProcessed = Map.empty\<rparr> :: (string, unit) CircuitStats) 0 Infinity
     = Inr \<lparr>width = 2, height = 2,
            rawBuffer = [Num 0, Num 0, Num 0, Num 0, Num 0, Num 0, Num 1, Num 0]\<rparr>
   \<and> controlledWireProbabilityJustAfter
        (\<lparr>circuitDefinition = \<lparr>numWires = 1, columns = [[None]]\<rparr>,
          time = Num 0,
          qubitDensities =
            [[\<lparr>width = 2, height = 2,
               rawBuffer = [Num 0, Num 0, Num 0, Num 0, Num 0, Num 0, Num 1, Num 0]\<rparr>]],
          finalState = \<lparr>width = 1, height = 2, rawBuffer = [Num 0, Num 0, Num 1, Num 0]\<rparr>,
          postSelectionSurvivalRate = Num 1,
          customStatsProcessed = Map.empty\<rparr> :: (string, unit) CircuitStats) 0 Infinity
     = Inr (Some (Num 1))"
proof -
  let ?s = "\<lparr>circuitDefinition = \<lparr>numWires = 1, columns = [[None]]\<rparr>,
          time = Num 0,
          qubitDensities =
            [[\<lparr>width = 2, height = 2,
               rawBuffer = [Num 0, Num 0, Num 0, Num 0, Num 0, Num 0, Num 1, Num 0]\<rparr>]],
          finalState = \<lparr>width = 1, height = 2, rawBuffer = [Num 0, Num 0, Num 1, Num 0]\<rparr>,
          postSelectionSurvivalRate = Num 1,
          customStatsProcessed = Map.empty\<rparr> :: (string, unit) CircuitStats"
  have q: "qubitDensityMatrix ?s 0 Infinity
     = Inr \<lparr>width = 2, height = 2,
            rawBuffer = [Num 0, Num 0, Num 0, Num 0, Num 0, Num 0, Num 1, Num 0]\<rparr>"
    by (simp add: qubitDensityMatrix_def col_negative_def Math_min_def)
  show ?thesis
    using q controlledWireProbabilityJustAfter_reads_entry [of ?s 0 Infinity]
    by (simp add: Float32Array_get_def)
qed

section \<open>Decoherence of measured bits\<close>

text \<open>
  C8, amended. For every square matrix \<open>M\<close> of width \<open>n\<close> and every mask,
  \<open>decohereMeasuredBitsInDensityMatrix(M, isMeasuredMask)\<close> is a matrix of the same
  shape. With the mask 0 it is \<open>M\<close>. With another mask its entry at \<open>(row, col)\<close> is
  zero, in its real and its imaginary part, when \<open>(row XOR col) & isMeasuredMask != 0\<close>,
  and otherwise the entry of \<open>M\<close> converted to single precision; so is every entry of
  the diagonal. Where \<open>M\<close> holds single-precision values the entries that are not
  zeroed, the diagonal among them, are those of \<open>M\<close>.
\<close>

theorem decohere_entries:
  assumes "width m = n" and "height m = n" and "length (rawBuffer m) = 2 * n * n"
    and "row < n" and "col < n"
  shows "(msk \<noteq> 0 \<longrightarrow>
            entry (decohereMeasuredBitsInDensityMatrix m msk) row col
              = (if js_and (js_xor (int row) (int col)) msk \<noteq> 0
                 then (Some (Num 0), Some (Num 0))
                 else fround_entry (entry m row col))
            \<and> entry (decohereMeasuredBitsInDensityMatrix m msk) row row
                = fround_entry (entry m row row))
       \<and> ((\<forall>x \<in> set (rawBuffer m). fround x = x) \<longrightarrow>
            entry (decohereMeasuredBitsInDensityMatrix m msk) row col
              = (if js_and (js_xor (int row) (int col)) msk \<noteq> 0
                 then (Some (Num 0), Some (Num 0))
                 else entry m row col)
            \<and> entry (decohereMeasuredBitsInDensityMatrix m msk) row row = entry m row row)
       \<and> decohereMeasuredBitsInDensityMatrix m 0 = m
       \<and> width (decohereMeasuredBitsInDensityMatrix m msk) = n
       \<and> height (decohereMeasuredBitsInDensityMatrix m msk) = n
       \<and> length (rawBuffer (decohereMeasuredBitsInDensityMatrix m msk)) = 2 * n * n"
proof -
  let ?R = "decohereMeasuredBitsInDensityMatrix m msk"
  have zero: "decohereMeasuredBitsInDensityMatrix m 0 = m"
    by (simp add: decohereMeasuredBitsInDensityMatrix_def)
  have cell: "entry ?R row col
                = (if js_and (js_xor (int row) (int col)) msk \<noteq> 0
                   then (Some (Num 0), Some (Num 0)) else fround_entry (entry m row col))"
    and diag: "entry ?R row row = fround_entry (entry m row row)" if "msk \<noteq> 0"
    using decohere_entry [OF assms(1,3,4,5) that] decohere_entry [OF assms(1,3,4,4) that]
      measured_apart_diagonal [of msk row]
    by (simp_all add: measured_apart_def)
  have single: "entry ?R row col
                = (if js_and (js_xor (int row) (int col)) msk \<noteq> 0
                   then (Some (Num 0), Some (Num 0)) else entry m row col)
              \<and> entry ?R row row = entry m row row"
    if f: "\<forall>x \<in> set (rawBuffer m). fround x = x"
  proof (cases "msk = 0")
    case True
    then show ?thesis using zero by simp
  next
    case False
    from cell [OF False] diag [OF False] fround_entry_single [OF f]
    show ?thesis by simp
  qed
  from cell diag single zero decohere_shape [OF assms(1-3), of msk]
  show ?thesis by blast
qed

theorem decohere_entries_witness:
  "entry (decohereMeasuredBitsInDensityMatrix
            \<lparr>width = 2, height = 2,
             rawBuffer = [Num 1, Num 0, Num 1, Num 0, Num 1, Num 0, Num 1, Num 0]\<rparr> 1) 0 1
     = (Some (Num 0), Some (Num 0))
   \<and> entry (decohereMeasuredBitsInDensityMatrix
            \<lparr>width = 2, height = 2,
             rawBuffer = [Num 1, Num 0, Num 1, Num 0, Num 1, Num 0, Num 1, Num 0]\<rparr> 1) 0 0
     = (Some (Num 1), Some (Num 0))"
proof -
  let ?M = "\<lparr>width = 2, height = 2,
             rawBuffer = [Num 1, Num 0, Num 1, Num 0, Num 1, Num 0, Num 1, Num 0]\<rparr>"
  have h: "width ?M = 2" "height ?M = 2" "length (rawBuffer ?M) = 2 * 2 * 2"
    "(0::nat) < 2" "(1::nat) < 2"
    by simp_all
  have single: "\<forall>x \<in> set (rawBuffer ?M). fround x = x"
    using fround_0 fround_1 by simp
  have hit: "js_and (js_xor (int 0) (int 1)) 1 \<noteq> 0"
    by (simp add: js_and_def js_xor_def ToInt32_def)
  have "entry ?M 0 0 = (Some (Num 1), Some (Num 0))"
    by (simp add: entry_def Float32Array_get_def)
  with decohere_entries [OF h, of 1] single hit show ?thesis
    by presburger
qed

text \<open>
  C8 as stated fails on a matrix of double precision: the density matrix with the
  diagonal \<open>1/2 + 2^-30\<close>, \<open>1/2 - 2^-30\<close> and the mask 1 give a matrix whose entry at
  \<open>(0, 0)\<close> is \<open>1/2\<close>, so an entry of the diagonal is changed.
\<close>

theorem diagonal_rounded_to_single_precision:
  "entry (decohereMeasuredBitsInDensityMatrix
            \<lparr>width = 2, height = 2,
             rawBuffer = [Num (536870913 / 1073741824), Num 0, Num 0, Num 0,
                          Num 0, Num 0, Num (536870911 / 1073741824), Num 0]\<rparr> 1) 0 0
     = (Some (Num (1 / 2)), Some (Num 0))
   \<and> entry \<lparr>width = 2, height = 2,
             rawBuffer = [Num (536870913 / 1073741824), Num 0, Num 0, Num 0,
                          Num 0, Num 0, Num (536870911 / 1073741824), Num 0]\<rparr> 0 0
     = (Some (Num (536870913 / 1073741824)), Some (Num 0))
   \<and> Num (1 / 2) \<noteq> Num (536870913 / 1073741824)"
proof -
  let ?M = "\<lparr>width = 2, height = 2,
             rawBuffer = [Num (536870913 / 1073741824), Num 0, Num 0, Num 0,
                          Num 0, Num 0, Num (536870911 / 1073741824), Num 0]\<rparr>"
  have h: "width ?M = 2" "length (rawBuffer ?M) = 2 * 2 * 2" "(0::nat) < 2" "(0::nat) < 2"
    "(1::int) \<noteq> 0"
    by simp_all
  have e: "entry ?M 0 0 = (Some (Num (536870913 / 1073741824)), Some (Num 0))"
    by (simp add: entry_def Float32Array_get_def)
  have "entry (decohereMeasuredBitsInDensityMatrix ?M 1) 0 0 = fround_entry (entry ?M 0 0)"
    using decohere_entry [OF h] measured_apart_diagonal [of 1 0] by simp
  also have "\<dots> = (Some (Num (1 / 2)), Some (Num 0))"
    unfolding e by (simp add: fround_entry_def fround_half_more fround_0 del: fround.simps)
  finally show ?thesis using e by simp
qed

section \<open>Re-tagging a snapshot\<close>

text \<open>
  C9. \<open>s.withTime(t)\<close> computes nothing: it is the snapshot with the time \<open>t\<close> and
  with the circuit definition, the density matrices, the final state, the survival rate
  and the custom-stat map of \<open>s\<close>, so the queries answer on it as they do on \<open>s\<close>.
\<close>

theorem withTime_retags:
  "time (withTime s t) = t
   \<and> circuitDefinition (withTime s t) = circuitDefinition s
   \<and> qubitDensities (withTime s t) = qubitDensities s
   \<and> finalState (withTime s t) = finalState s
   \<and> postSelectionSurvivalRate (withTime s t) = postSelectionSurvivalRate s
   \<and> customStatsProcessed (withTime s t) = customStatsProcessed s
   \<and> withTime s t = s\<lparr>time := t\<rparr>
   \<and> qubitDensityMatrix (withTime s t) wire col = qubitDensityMatrix s wire col
   \<and> controlledWireProbabilityJustAfter (withTime s t) wire col
       = controlledWireProbabilityJustAfter s wire col"
proof -
  have fields: "circuitDefinition (withTime s t) = circuitDefinition s"
    "qubitDensities (withTime s t) = qubitDensities s"
    by (simp_all add: withTime_def)
  have q: "qubitDensityMatrix (withTime s t) wire col = qubitDensityMatrix s wire col"
    unfolding qubitDensityMatrix_def fields ..
  have "controlledWireProbabilityJustAfter (withTime s t) wire col
          = controlledWireProbabilityJustAfter s wire col"
    unfolding controlledWireProbabilityJustAfter_def q ..
  with q show ?thesis
    by (simp add: withTime_def)
qed

theorem withTime_retags_witness:
  "withTime
     (\<lparr>circuitDefinition = \<lparr>numWires = 1, columns = []\<rparr>,
       time = Num 0,
       qubitDensities = [],
       finalState = \<lparr>width = 1, height = 2, rawBuffer = [Num 1, Num 0, Num 0, Num 0]\<rparr>,
       postSelectionSurvivalRate = Num 1,
       customStatsProcessed = Map.empty\<rparr> :: (string, unit) CircuitStats) (Num (1 / 2))
   = \<lparr>circuitDefinition = \<lparr>numWires = 1, columns = []\<rparr>,
      time = Num (1 / 2),
      qubitDensities = [],
      finalState = \<lparr>width = 1, height = 2, rawBuffer = [Num 1, Num 0, Num 0, Num 0]\<rparr>,
      postSelectionSurvivalRate = Num 1,
      customStatsProcessed = Map.empty\<rparr>"
  using withTime_retags [of
      "\<lparr>circuitDefinition = \<lparr>numWires = 1, columns = []\<rparr>,
        time = Num 0,
        qubitDensities = [],
        finalState = \<lparr>width = 1, height = 2, rawBuffer = [Num 1, Num 0, Num 0, Num 0]\<rparr>,
        postSelectionSurvivalRate = Num 1,
        customStatsProcessed = Map.empty\<rparr> :: (string, unit) CircuitStats" "Num (1 / 2)"]
  by simp

section \<open>The guard on the wire index\<close>

text \<open>
  C10. \<open>qubitDensityMatrix(wire, col)\<close> with \<open>wire < 0\<close> throws "Bad wireIndex", on
  every snapshot and at every column index; it throws at no other wire index, and in
  particular returns \<open>[[1,0],[0,0]]\<close> at a wire index that is \<open>numWires\<close> or more.
\<close>

theorem qubitDensityMatrix_negative_wire:
  "(wire < 0 \<longrightarrow> qubitDensityMatrix s wire col = Inl (DetailedError ''Bad wireIndex''))
   \<and> ((\<exists>e. qubitDensityMatrix s wire col = Inl e) \<longleftrightarrow> wire < 0)
   \<and> (0 \<le> wire \<and> int (numWires (circuitDefinition s)) \<le> wire \<longrightarrow>
        qubitDensityMatrix s wire col =
          Inr \<lparr>width = 2, height = 2,
               rawBuffer = [Num 1, Num 0, Num 0, Num 0, Num 0, Num 0, Num 0, Num 0]\<rparr>)"
  using NaN_matrix_2x2 zero_qubit_density
  by (auto simp: qubitDensityMatrix_def Let_def)

theorem qubitDensityMatrix_negative_wire_witness:
  "(- 1 :: int) < 0
   \<and> qubitDensityMatrix
        (\<lparr>circuitDefinition = \<lparr>numWires = 1, columns = []\<rparr>,
          time = Num 0,
          qubitDensities = [],
          finalState = \<lparr>width = 1, height = 2, rawBuffer = [NaN, NaN, NaN, NaN]\<rparr>,
          postSelectionSurvivalRate = NaN,
          customStatsProcessed = Map.empty\<rparr> :: (string, unit) CircuitStats) (- 1) (Col 0)
     = Inl (DetailedError ''Bad wireIndex'')"
  using qubitDensityMatrix_negative_wire [of "- 1"
      "\<lparr>circuitDefinition = \<lparr>numWires = 1, columns = []\<rparr>,
          time = Num 0,
          qubitDensities = [],
          finalState = \<lparr>width = 1, height = 2, rawBuffer = [NaN, NaN, NaN, NaN]\<rparr>,
          postSelectionSurvivalRate = NaN,
          customStatsProcessed = Map.empty\<rparr> :: (string, unit) CircuitStats" "Col 0"]
  by simp


end
